theory Spec2Isabelle
  imports Complex_Main "HOL-Library.Sublist" "HOL-Library.Multiset"
begin

section \<open>Data model (src/types/data.ts)\<close>

text \<open>
  A cell is \<^verbatim>\<open>string | number | null\<close>. The number type is a parameter of the
  parsing functions (they only store, compare with \<^verbatim>\<open>typeof\<close> and test
  \<^verbatim>\<open>Number.isNaN\<close>). The chart renderer computes with the numbers of a table. There a
  number is a double other than NaN (the coercion of the parsers stores the text instead
  of a NaN): the real it stands for, or an infinity, which the parsers store for the text
  \<^verbatim>\<open>Infinity\<close>. A row is a JavaScript object used
  as a dictionary, modelled by its own properties: a key that is not an own property reads
  as \<^verbatim>\<open>undefined\<close>, here \<^term>\<open>None\<close> (reading a member that a row inherits and does
  not own, such as \<^verbatim>\<open>__proto__\<close>, is not modelled). Writing a row is modelled with the
  one key that does not become an own property, \<^verbatim>\<open>__proto__\<close> (see \<open>assign\<close> below).
  Strings are lists of 8-bit characters.
\<close>

datatype 'n cell = Num 'n | Str string | Null

datatype number = Finite real | PlusInfinity | MinusInfinity

type_synonym 'n row = "string \<Rightarrow> 'n cell option"

record 'n DataTable =
  headers :: "string list"
  rows :: "'n row list"

datatype ChartKind = Column | Bar | Line | Combo | Pie | Heatmap | Table | Funnel | Scatter

text \<open>\<^verbatim>\<open>typeof v === "number"\<close> and \<^verbatim>\<open>typeof v === "string"\<close> on the value read from a row.\<close>

fun is_number :: "'n cell option \<Rightarrow> bool" where
  "is_number (Some (Num _)) = True"
| "is_number _ = False"

fun is_string :: "'n cell option \<Rightarrow> bool" where
  "is_string (Some (Str _)) = True"
| "is_string _ = False"

section \<open>Chart type suggestion (parseData.ts, suggestChartType)\<close>

definition numericColumns :: "string list \<Rightarrow> 'n row list \<Rightarrow> string list" where
  "numericColumns hs rs = filter (\<lambda>h. list_ex (\<lambda>r. is_number (r h)) rs) hs"

definition categoricalColumns :: "string list \<Rightarrow> 'n row list \<Rightarrow> string list" where
  "categoricalColumns hs rs = filter (\<lambda>h. list_ex (\<lambda>r. is_string (r h)) rs) hs"

definition suggestChartType :: "string list \<Rightarrow> 'n row list \<Rightarrow> ChartKind" where
  "suggestChartType hs rs =
     (if length (numericColumns hs rs) \<ge> 2 then Scatter
      else if length (numericColumns hs rs) = 1 \<and> length (categoricalColumns hs rs) \<ge> 1 then Column
      else if length hs \<le> 2 \<and> length rs \<le> 8 then Pie
      else if length rs > 50 then Line
      else Table)"

section \<open>Strings and numbers of the host language\<close>

text \<open>
  \<^verbatim>\<open>String.prototype.trim\<close> removes white space and line terminators at both ends; in the
  8-bit range these are TAB, LF, VT, FF, CR, SP and NBSP.
\<close>

definition is_ws :: "char \<Rightarrow> bool" where
  "is_ws c = (c \<in> set [CHR 0x09, CHR 0x0A, CHR 0x0B, CHR 0x0C, CHR 0x0D, CHR 0x20, CHR 0xA0])"

definition trim :: "string \<Rightarrow> string" where
  "trim s = rev (dropWhile is_ws (rev (dropWhile is_ws s)))"

text \<open>\<^verbatim>\<open>s.includes(sub)\<close>: \<open>sub\<close> occurs in \<open>s\<close> as a contiguous substring.\<close>

fun str_includes :: "string \<Rightarrow> string \<Rightarrow> bool" where
  "str_includes [] sub = (sub = [])"
| "str_includes (c # cs) sub = (prefix sub (c # cs) \<or> str_includes cs sub)"

definition is_digit :: "char \<Rightarrow> bool" where
  "is_digit c = (c \<in> set ''0123456789'')"

definition digit_val :: "char \<Rightarrow> nat" where
  "digit_val c = of_char c - 48"

definition digits_val :: "string \<Rightarrow> nat" where
  "digits_val ds = foldl (\<lambda>a c. 10 * a + digit_val c) 0 ds"

text \<open>The decimal text of a natural number, as a template literal prints an index.\<close>

definition digit_char :: "nat \<Rightarrow> char" where
  "digit_char d = char_of (48 + d)"

function show_nat :: "nat \<Rightarrow> string" where
  "show_nat n = (if n < 10 then [digit_char n] else show_nat (n div 10) @ [digit_char (n mod 10)])"
  by pat_completeness auto
termination
  by (relation "measure id") auto

declare show_nat.simps [simp del]

text \<open>
  The values of the number type, for the concrete instance of the numeric parse below:
  finite values (exact, without the rounding of doubles), the two infinities and NaN.
\<close>

datatype jsnum = Fin real | PInf | NInf | NaN

text \<open>Digits of the radix literals and of hexadecimal color texts.\<close>

definition is_hex :: "char \<Rightarrow> bool" where
  "is_hex c = (c \<in> set ''0123456789abcdefABCDEF'')"

definition hex_digit_val :: "char \<Rightarrow> nat" where
  "hex_digit_val c =
     (if is_digit c then of_char c - 48
      else if c \<in> set ''abcdef'' then of_char c - 87
      else of_char c - 55)"

definition radix_val :: "nat \<Rightarrow> string \<Rightarrow> nat" where
  "radix_val b ds = foldl (\<lambda>a c. b * a + hex_digit_val c) 0 ds"

definition hex_val :: "string \<Rightarrow> nat" where
  "hex_val ds = radix_val 16 ds"

text \<open>
  The builtin \<^verbatim>\<open>Number(text)\<close> on the grammar of string numeric literals: surrounding
  white space is dropped and the empty text is 0; a text that starts with \<^verbatim>\<open>0x\<close>,
  \<^verbatim>\<open>0o\<close> or \<^verbatim>\<open>0b\<close> (either case) is a number when digits of that radix follow and
  nothing else; otherwise an optional sign, then \<^verbatim>\<open>Infinity\<close> or decimal digits with an
  optional fraction and an optional exponent; anything else is NaN.
\<close>

definition radix_literal :: "nat \<Rightarrow> string \<Rightarrow> string \<Rightarrow> jsnum" where
  "radix_literal b allowed ds =
     (if ds \<noteq> [] \<and> list_all (\<lambda>c. c \<in> set allowed) ds then Fin (real (radix_val b ds)) else NaN)"

definition parse_exponent :: "string \<Rightarrow> int option" where
  "parse_exponent s =
     (case s of
        [] \<Rightarrow> Some 0
      | c # t \<Rightarrow>
          if c = CHR ''e'' \<or> c = CHR ''E'' then
            (let (neg, ds) = (case t of
                                d # u \<Rightarrow> if d = CHR ''-'' then (True, u)
                                         else if d = CHR ''+'' then (False, u) else (False, t)
                              | [] \<Rightarrow> (False, t))
             in if ds \<noteq> [] \<and> list_all is_digit ds
                then Some (if neg then - int (digits_val ds) else int (digits_val ds))
                else None)
          else None)"

definition parse_decimal :: "string \<Rightarrow> real option" where
  "parse_decimal s =
     (let ip = takeWhile is_digit s;
          r1 = dropWhile is_digit s;
          (fp, r2) = (case r1 of
                        c # t \<Rightarrow> if c = CHR ''.'' then (takeWhile is_digit t, dropWhile is_digit t)
                                 else ([], r1)
                      | [] \<Rightarrow> ([], r1))
      in if ip = [] \<and> fp = [] then None
         else (case parse_exponent r2 of
                 None \<Rightarrow> None
               | Some e \<Rightarrow>
                   Some ((real (digits_val ip) + real (digits_val fp) / 10 ^ length fp)
                         * (if e \<ge> 0 then 10 ^ nat e else 1 / 10 ^ nat (- e)))))"

definition js_Number :: "string \<Rightarrow> jsnum" where
  "js_Number text =
     (let s = trim text in
      if s = [] then Fin 0
      else if prefix ''0x'' s \<or> prefix ''0X'' s
      then radix_literal 16 ''0123456789abcdefABCDEF'' (drop 2 s)
      else if prefix ''0o'' s \<or> prefix ''0O'' s then radix_literal 8 ''01234567'' (drop 2 s)
      else if prefix ''0b'' s \<or> prefix ''0B'' s then radix_literal 2 ''01'' (drop 2 s)
      else
        (let (neg, u) = (case s of
                           c # t \<Rightarrow> if c = CHR ''-'' then (True, t)
                                    else if c = CHR ''+'' then (False, t) else (False, s)
                         | [] \<Rightarrow> (False, s))
         in if u = ''Infinity'' then (if neg then NInf else PInf)
            else (case parse_decimal u of
                    None \<Rightarrow> NaN
                  | Some x \<Rightarrow> Fin (if neg then - x else x))))"

definition js_isNaN :: "jsnum \<Rightarrow> bool" where
  "js_isNaN n = (n = NaN)"

section \<open>Cell coercion (parseData.ts, toNumberIfPossible)\<close>

text \<open>
  The raw value handed to the coercion is typed \<^verbatim>\<open>any\<close>: the primitives a parser can
  yield. \<open>N\<close> is the builtin \<^verbatim>\<open>Number\<close> on strings and \<open>isNaN\<close> is \<^verbatim>\<open>Number.isNaN\<close>.
\<close>

datatype 'n raw = RNull | RUndefined | RNumber 'n | RString string | RBool bool

definition strip_commas :: "string \<Rightarrow> string" where
  "strip_commas s = filter (\<lambda>c. c \<noteq> CHR '','') s"

definition coerce_text :: "(string \<Rightarrow> 'n) \<Rightarrow> ('n \<Rightarrow> bool) \<Rightarrow> string \<Rightarrow> 'n cell" where
  "coerce_text N isNaN t =
     (let s = trim t in
      if s = [] then Null
      else (let n = N (strip_commas s) in if isNaN n then Str s else Num n))"

fun toNumberIfPossible :: "(string \<Rightarrow> 'n) \<Rightarrow> ('n \<Rightarrow> bool) \<Rightarrow> 'n raw \<Rightarrow> 'n cell" where
  "toNumberIfPossible N isNaN RNull = Null"
| "toNumberIfPossible N isNaN RUndefined = Null"
| "toNumberIfPossible N isNaN (RNumber n) = Num n"
| "toNumberIfPossible N isNaN (RString t) = coerce_text N isNaN t"
| "toNumberIfPossible N isNaN (RBool b) = coerce_text N isNaN (if b then ''true'' else ''false'')"


section \<open>Parsers (parseData.ts, parseCSV, parseXLSX, parseGoogleSheet)\<close>

text \<open>
  The delimited-text library returns an array of arrays of strings; an element the code
  guards with \<^verbatim>\<open>??\<close> (null or undefined) is \<^term>\<open>None\<close>, and so is a read past the end
  of a row.
\<close>

datatype error = TypeError | FetchError

fun nth_opt :: "'a list \<Rightarrow> nat \<Rightarrow> 'a option" where
  "nth_opt [] _ = None"
| "nth_opt (x # xs) 0 = Some x"
| "nth_opt (x # xs) (Suc n) = nth_opt xs n"

definition header_name :: "string option \<Rightarrow> string" where
  "header_name h = (case h of None \<Rightarrow> ''col'' | Some s \<Rightarrow> s)"

definition row_key :: "string option \<Rightarrow> nat \<Rightarrow> string" where
  "row_key h i = (case h of None \<Rightarrow> ''col_'' @ show_nat i | Some s \<Rightarrow> s)"

definition raw_of_text :: "string option option \<Rightarrow> 'n raw" where
  "raw_of_text v = (case v of Some (Some s) \<Rightarrow> RString s | _ \<Rightarrow> RUndefined)"

text \<open>
  The assignment \<^verbatim>\<open>row[k] = v\<close> on an object made by the literal \<^verbatim>\<open>{}\<close>. Every key
  becomes an own property, except \<^verbatim>\<open>__proto__\<close> as long as the object has its prototype:
  then the setter inherited from the prototype runs instead. It makes no own property; for
  the value null it removes the prototype of the object, after which \<^verbatim>\<open>__proto__\<close> is a
  key like any other; for a number or a text it does nothing. The state of an object under
  construction is its own properties and whether it still has its prototype.
\<close>

definition assign :: "'n row \<times> bool \<Rightarrow> string \<Rightarrow> 'n cell \<Rightarrow> 'n row \<times> bool" where
  "assign st k v =
     (case st of (row, proto) \<Rightarrow>
        if k = ''__proto__'' \<and> proto then (row, v \<noteq> Null) else (row(k \<mapsto> v), proto))"

definition csv_row ::
  "(string \<Rightarrow> 'n) \<Rightarrow> ('n \<Rightarrow> bool) \<Rightarrow> string option list \<Rightarrow> string option list \<Rightarrow> 'n row" where
  "csv_row N isNaN header r =
     fst (foldl (\<lambda>st (i, h). assign st (row_key h i)
                                (toNumberIfPossible N isNaN (raw_of_text (nth_opt r i))))
            (Map.empty, True) (enumerate 0 header))"

text \<open>
  parseCSV destructures \<^verbatim>\<open>[header, ...rows]\<close> and calls \<^verbatim>\<open>header.map\<close>: with no
  record at all the header is undefined and the call throws. parseGoogleSheet reads
  \<^verbatim>\<open>header ?? []\<close> instead.
\<close>

definition parseCSV_table ::
  "(string \<Rightarrow> 'n) \<Rightarrow> ('n \<Rightarrow> bool) \<Rightarrow> string option list list \<Rightarrow> error + 'n DataTable" where
  "parseCSV_table N isNaN data =
     (case data of
        [] \<Rightarrow> Inl TypeError
      | header # rs \<Rightarrow>
          Inr \<lparr>headers = map header_name header, rows = map (csv_row N isNaN header) rs\<rparr>)"

definition parseGoogleSheet_table ::
  "(string \<Rightarrow> 'n) \<Rightarrow> ('n \<Rightarrow> bool) \<Rightarrow> string option list list \<Rightarrow> 'n DataTable" where
  "parseGoogleSheet_table N isNaN data =
     (let header = (case data of [] \<Rightarrow> [] | h # _ \<Rightarrow> h) in
      \<lparr>headers = map header_name header, rows = map (csv_row N isNaN header) (tl data)\<rparr>)"

text \<open>parseCSV on the text of the file; \<open>papa\<close> is the delimited-text parse.\<close>

definition parseCSV ::
  "(string \<Rightarrow> 'n) \<Rightarrow> ('n \<Rightarrow> bool) \<Rightarrow> (string \<Rightarrow> string option list list) \<Rightarrow> string \<Rightarrow>
   error + 'n DataTable" where
  "parseCSV N isNaN papa text = parseCSV_table N isNaN (papa text)"

text \<open>
  parseXLSX: the spreadsheet library yields one object per record, here the list of its
  own keys with their values, in key order.
\<close>

definition xlsx_row ::
  "(string \<Rightarrow> 'n) \<Rightarrow> ('n \<Rightarrow> bool) \<Rightarrow> string list \<Rightarrow> (string \<times> 'n raw) list \<Rightarrow> 'n row" where
  "xlsx_row N isNaN hs r =
     foldl (\<lambda>row h. row(h \<mapsto> toNumberIfPossible N isNaN
                                (case map_of r h of None \<Rightarrow> RUndefined | Some v \<Rightarrow> v)))
       Map.empty hs"

definition parseXLSX_table ::
  "(string \<Rightarrow> 'n) \<Rightarrow> ('n \<Rightarrow> bool) \<Rightarrow> (string \<times> 'n raw) list list \<Rightarrow> 'n DataTable" where
  "parseXLSX_table N isNaN json =
     (let hs = (case json of [] \<Rightarrow> [] | r # _ \<Rightarrow> map fst r) in
      \<lparr>headers = hs, rows = map (xlsx_row N isNaN hs) json\<rparr>)"

text \<open>parseXLSX on the file; \<open>sheet\<close> reads the records of the first sheet.\<close>

definition parseXLSX ::
  "(string \<Rightarrow> 'n) \<Rightarrow> ('n \<Rightarrow> bool) \<Rightarrow> ('f \<Rightarrow> (string \<times> 'n raw) list list) \<Rightarrow> 'f \<Rightarrow>
   'n DataTable" where
  "parseXLSX N isNaN sheet file = parseXLSX_table N isNaN (sheet file)"

subsection \<open>The export URL of a published sheet\<close>

text \<open>
  \<^verbatim>\<open>exportUrl.match(/gid=(\d+)/)\<close>: the leftmost \<^verbatim>\<open>gid=\<close> that is followed by a digit,
  with the longest run of digits after it.
\<close>

fun match_gid :: "string \<Rightarrow> string option" where
  "match_gid [] = None"
| "match_gid (c # cs) =
     (if prefix ''gid='' (c # cs) \<and> takeWhile is_digit (drop 4 (c # cs)) \<noteq> []
      then Some (takeWhile is_digit (drop 4 (c # cs)))
      else match_gid cs)"

text \<open>
  \<^verbatim>\<open>exportUrl.replace(/\/edit.*$/, repl)\<close>: the dot matches no line terminator and the
  dollar only the end of the text, so the match starts at the leftmost \<^verbatim>\<open>/edit\<close> with
  no line terminator after it; without such a place the text is returned as it is. The
  replacement holds no \<^verbatim>\<open>$\<close>, so it is inserted literally.
\<close>

definition is_line_terminator :: "char \<Rightarrow> bool" where
  "is_line_terminator c = (c = CHR 0x0A \<or> c = CHR 0x0D)"

fun replace_edit :: "string \<Rightarrow> string \<Rightarrow> string" where
  "replace_edit repl [] = []"
| "replace_edit repl (c # cs) =
     (if prefix ''/edit'' (c # cs) \<and> \<not> list_ex is_line_terminator (drop 5 (c # cs))
      then repl
      else c # replace_edit repl cs)"

definition exportUrl :: "string \<Rightarrow> string" where
  "exportUrl url =
     (let e = trim url;
          gid = (case match_gid e of Some d \<Rightarrow> d | None \<Rightarrow> ''0'')
      in if str_includes e ''/edit'' then replace_edit (''/export?format=csv&gid='' @ gid) e
         else if \<not> str_includes e ''export?format=csv''
         then e @ (if str_includes e ''?'' then ''&'' else ''?'') @ ''format=csv''
         else e)"

text \<open>
  parseGoogleSheet: \<open>fetch\<close> gives the body of a successful response, \<^term>\<open>None\<close> when
  the response is not ok; \<open>papa\<close> is the delimited-text parse.
\<close>

definition parseGoogleSheet ::
  "(string \<Rightarrow> 'n) \<Rightarrow> ('n \<Rightarrow> bool) \<Rightarrow> (string \<Rightarrow> string option) \<Rightarrow>
   (string \<Rightarrow> string option list list) \<Rightarrow> string \<Rightarrow> error + 'n DataTable" where
  "parseGoogleSheet N isNaN fetch papa url =
     (case fetch (exportUrl url) of
        None \<Rightarrow> Inl FetchError
      | Some text \<Rightarrow> Inr (parseGoogleSheet_table N isNaN (papa text)))"

section \<open>Colors (ChartRenderer.tsx, final version)\<close>

text \<open>
  A color is the CSS text the code builds with a template literal, kept structured:
  \<^verbatim>\<open>rgba(r, g, b, alpha)\<close> with the three results of \<^verbatim>\<open>parseInt\<close> (\<^term>\<open>None\<close> is NaN),
  \<^verbatim>\<open>hsl(v)\<close> or \<^verbatim>\<open>hsl(v / alpha)\<close> with the text \<open>v\<close> of a CSS variable, or a literal
  color text.
\<close>

datatype color = Rgba "int option" "int option" "int option" real | Hsl string "real option" | Lit string

text \<open>
  \<^verbatim>\<open>parseInt(text, 16)\<close>: leading white space, an optional sign, an optional \<^verbatim>\<open>0x\<close>, then
  the longest run of hexadecimal digits; NaN when that run is empty.
\<close>

definition parseInt16 :: "string \<Rightarrow> int option" where
  "parseInt16 s =
     (let t = dropWhile is_ws s;
          (neg, u) = (case t of
                        c # r \<Rightarrow> if c = CHR ''-'' then (True, r)
                                 else if c = CHR ''+'' then (False, r) else (False, t)
                      | [] \<Rightarrow> (False, t));
          v = (if prefix ''0x'' u \<or> prefix ''0X'' u then drop 2 u else u);
          ds = takeWhile is_hex v
      in if ds = [] then None
         else Some (if neg then - int (hex_val ds) else int (hex_val ds)))"

definition hexToRgba :: "string \<Rightarrow> real \<Rightarrow> color" where
  "hexToRgba hex alpha =
     (let h0 = remove1 (CHR ''#'') hex;
          h = (if length h0 = 3 then concat (map (\<lambda>c. [c, c]) h0) else h0)
      in Rgba (parseInt16 (take 2 h)) (parseInt16 (take 2 (drop 2 h)))
              (parseInt16 (take 2 (drop 4 h))) (max 0 (min 1 alpha)))"

text \<open>
  The host: the CSS custom properties of the document (\<^term>\<open>None\<close> when reading the
  computed style throws; a property that is not set reads as the empty text), the text of
  a number as \<^verbatim>\<open>String(n)\<close> gives it, and the arithmetic of doubles. A real stands for
  the finite double of that value. The exact result of an operation on doubles, and the
  value of a decimal literal, is rounded to a double: \<open>rnd\<close> is that rounding for a
  result whose magnitude is below \<open>overflow\<close>, and from \<open>overflow\<close> on the result
  is an infinity. Positive and negative zero are not told apart.
\<close>

record host =
  css :: "(string \<Rightarrow> string) option"
  num_text :: "number \<Rightarrow> string"
  rnd :: "real \<Rightarrow> real"
  overflow :: real

definition js_round :: "host \<Rightarrow> real \<Rightarrow> jsnum" where
  "js_round H x =
     (if overflow H \<le> x then PInf else if x \<le> - overflow H then NInf else Fin (rnd H x))"

text \<open>
  What the properties below use of the rounding to the nearest double: it is monotone, it
  keeps 0, 1 and 48, which are doubles, and 48 is below the overflow threshold.
\<close>

definition rounding :: "host \<Rightarrow> bool" where
  "rounding H \<longleftrightarrow>
     mono (rnd H) \<and> rnd H 0 = 0 \<and> rnd H 1 = 1 \<and> rnd H 48 = 48 \<and> 48 < overflow H"

definition jsnum_of :: "number \<Rightarrow> jsnum" where
  "jsnum_of n = (case n of Finite x \<Rightarrow> Fin x | PlusInfinity \<Rightarrow> PInf | MinusInfinity \<Rightarrow> NInf)"

text \<open>
  \<^verbatim>\<open>a / b\<close>, \<^verbatim>\<open>a * b\<close>, \<^verbatim>\<open>Math.max(a, b)\<close>, \<^verbatim>\<open>Math.max(...xs)\<close> and \<^verbatim>\<open>a || b\<close>
  on numbers. A zero divisor is taken as positive zero.
\<close>

fun js_div :: "host \<Rightarrow> jsnum \<Rightarrow> jsnum \<Rightarrow> jsnum" where
  "js_div H NaN b = NaN"
| "js_div H a NaN = NaN"
| "js_div H (Fin x) (Fin y) =
     (if y = 0 then (if x = 0 then NaN else if 0 < x then PInf else NInf)
      else js_round H (x / y))"
| "js_div H (Fin x) b = Fin 0"
| "js_div H PInf (Fin y) = (if 0 \<le> y then PInf else NInf)"
| "js_div H NInf (Fin y) = (if 0 \<le> y then NInf else PInf)"
| "js_div H a b = NaN"

fun js_mul :: "host \<Rightarrow> jsnum \<Rightarrow> jsnum \<Rightarrow> jsnum" where
  "js_mul H NaN b = NaN"
| "js_mul H a NaN = NaN"
| "js_mul H (Fin x) (Fin y) = js_round H (x * y)"
| "js_mul H (Fin x) PInf = (if x = 0 then NaN else if 0 < x then PInf else NInf)"
| "js_mul H (Fin x) NInf = (if x = 0 then NaN else if 0 < x then NInf else PInf)"
| "js_mul H PInf (Fin y) = (if y = 0 then NaN else if 0 < y then PInf else NInf)"
| "js_mul H NInf (Fin y) = (if y = 0 then NaN else if 0 < y then NInf else PInf)"
| "js_mul H PInf PInf = PInf"
| "js_mul H PInf NInf = NInf"
| "js_mul H NInf PInf = NInf"
| "js_mul H NInf NInf = PInf"

fun js_max :: "jsnum \<Rightarrow> jsnum \<Rightarrow> jsnum" where
  "js_max NaN b = NaN"
| "js_max a NaN = NaN"
| "js_max PInf b = PInf"
| "js_max a PInf = PInf"
| "js_max NInf b = b"
| "js_max a NInf = a"
| "js_max (Fin x) (Fin y) = Fin (max x y)"

definition js_Math_max :: "jsnum list \<Rightarrow> jsnum" where
  "js_Math_max xs = foldl js_max NInf xs"

definition js_or_num :: "jsnum \<Rightarrow> jsnum \<Rightarrow> jsnum" where
  "js_or_num a b = (if a = NaN \<or> a = Fin 0 then b else a)"

text \<open>
  \<^verbatim>\<open>a - b\<close>, where only the sign of the result is used (by a sort). The rounded
  difference of two doubles is zero only when they are equal and has the sign of the exact
  difference, which stands for it here.
\<close>

fun js_sub :: "jsnum \<Rightarrow> jsnum \<Rightarrow> jsnum" where
  "js_sub NaN b = NaN"
| "js_sub a NaN = NaN"
| "js_sub (Fin x) (Fin y) = Fin (x - y)"
| "js_sub (Fin x) PInf = NInf"
| "js_sub (Fin x) NInf = PInf"
| "js_sub PInf (Fin y) = PInf"
| "js_sub NInf (Fin y) = NInf"
| "js_sub PInf NInf = PInf"
| "js_sub NInf PInf = NInf"
| "js_sub PInf PInf = NaN"
| "js_sub NInf NInf = NaN"

text \<open>\<^verbatim>\<open>v > 0\<close> and \<^verbatim>\<open>a <= b\<close> on numbers; a comparison with NaN is false.\<close>

fun js_positive :: "jsnum \<Rightarrow> bool" where
  "js_positive (Fin x) = (0 < x)"
| "js_positive PInf = True"
| "js_positive v = False"


definition default_accent :: string where
  "default_accent = ''#00e5ff''"

text \<open>A text that is truthy: defined and not empty.\<close>

fun truthy :: "string option \<Rightarrow> string option" where
  "truthy None = None"
| "truthy (Some s) = (if s = [] then None else Some s)"

definition hslVar :: "host \<Rightarrow> string \<Rightarrow> real option \<Rightarrow> string option \<Rightarrow> color" where
  "hslVar H name alpha fallback =
     (let fb = (case truthy fallback of Some f \<Rightarrow> f | None \<Rightarrow> default_accent) in
      case css H of
        None \<Rightarrow> Lit fb
      | Some style \<Rightarrow> (let v = trim (style name) in if v = [] then Lit fb else Hsl v alpha))"

definition neonVars :: "string list" where
  "neonVars = [''--chart-neon-1'', ''--chart-neon-2'', ''--chart-neon-3'', ''--chart-neon-4'',
               ''--chart-neon-5'']"

definition colorfulVars :: "string list" where
  "colorfulVars = [''--chart-color-1'', ''--chart-color-2'', ''--chart-color-3'',
                   ''--chart-color-4'', ''--chart-color-5'', ''--chart-color-6'']"

datatype palette = Neon | Colorful | Monochrome

record ChartRendererProps =
  table :: "number DataTable"
  chart :: ChartKind
  xField :: "string option"
  yField :: "string option"
  y2Field :: "string option"
  colorVar :: "string option"
  customHex :: "string option"
  opacity :: "real option"
  palette :: "palette option"
  perValueColors :: "(string \<Rightarrow> string option) option"

text \<open>\<^verbatim>\<open>const alphaBase = 1; // lock to 100% opacity\<close>\<close>

definition alphaBase :: real where
  "alphaBase = 1"

definition fromUser :: "host \<Rightarrow> ChartRendererProps \<Rightarrow> string \<Rightarrow> real \<Rightarrow> color" where
  "fromUser H p fallbackVar a =
     (case truthy (customHex p) of
        Some hex \<Rightarrow> hexToRgba hex a
      | None \<Rightarrow>
          (case truthy (colorVar p) of
             Some v \<Rightarrow> hslVar H v (Some a) None
           | None \<Rightarrow> hslVar H fallbackVar (Some a) None))"

text \<open>\<^verbatim>\<open>String(label)\<close> of a label.\<close>

fun String_of :: "host \<Rightarrow> number cell \<Rightarrow> string" where
  "String_of H (Str s) = s"
| "String_of H (Num n) = num_text H n"
| "String_of H Null = ''null''"

text \<open>
  \<^verbatim>\<open>perValueColors && perValueColors[key]\<close>. The property holds a plain object (the
  state of the Builder page, \<^verbatim>\<open>{}\<close> at first, then copies made with a spread), here the
  map of its own properties. A key that is not an own property but the name of a member of
  \<^verbatim>\<open>Object.prototype\<close> reads as that member: a function or, for \<^verbatim>\<open>__proto__\<close>, the
  prototype object itself.
\<close>

definition object_prototype_names :: "string list" where
  "object_prototype_names =
     [''constructor'', ''__defineGetter__'', ''__defineSetter__'', ''hasOwnProperty'',
      ''__lookupGetter__'', ''__lookupSetter__'', ''isPrototypeOf'', ''propertyIsEnumerable'',
      ''toString'', ''valueOf'', ''__proto__'', ''toLocaleString'']"

datatype member = Own string | Inherited | Absent

definition per_value :: "ChartRendererProps \<Rightarrow> string \<Rightarrow> member" where
  "per_value p key =
     (case perValueColors p of
        None \<Rightarrow> Absent
      | Some m \<Rightarrow>
          (case m key of
             Some s \<Rightarrow> Own s
           | None \<Rightarrow> if key \<in> set object_prototype_names then Inherited else Absent))"

text \<open>
  \<^verbatim>\<open>const scale = 0.6 + (index % 6) * 0.07\<close> of the monochrome branch: two literals, a
  product and a sum, each rounded. The remainder of an index is exact.
\<close>

definition mono_scale :: "host \<Rightarrow> nat \<Rightarrow> real" where
  "mono_scale H index = rnd H (rnd H 0.6 + rnd H (real (index mod 6) * rnd H 0.07))"

definition palette_of :: "ChartRendererProps \<Rightarrow> palette" where
  "palette_of p = (case palette p of None \<Rightarrow> Neon | Some q \<Rightarrow> q)"

text \<open>
  colorFor. A per-value entry that is truthy goes to \<^verbatim>\<open>hexToRgba\<close>: an own property is a
  text, used when it is not empty; an inherited member is truthy and not a text, and
  \<^verbatim>\<open>hex.replace\<close> throws a TypeError on it. \<open>rest\<close> is the remainder of the function,
  from the test of \<^verbatim>\<open>customHex\<close> on.
\<close>

definition colorFor ::
  "host \<Rightarrow> ChartRendererProps \<Rightarrow> nat \<Rightarrow> number cell \<Rightarrow> real \<Rightarrow> error + color" where
  "colorFor H p index label a =
     (let key = String_of H label;
          rest =
            (case truthy (customHex p) of
               Some hex \<Rightarrow> hexToRgba hex a
             | None \<Rightarrow>
             (case truthy (colorVar p) of
               Some v \<Rightarrow> hslVar H v (Some a) None
             | None \<Rightarrow>
               if palette_of p = Colorful
               then hslVar H (colorfulVars ! (index mod length colorfulVars)) (Some a) None
               else if palette_of p = Monochrome
               then hslVar H ''--primary''
                      (Some (max (rnd H 0.05) (min 1 (rnd H (a * mono_scale H index))))) None
               else hslVar H (neonVars ! (index mod length neonVars)) (Some a) None))
      in case per_value p key of
           Own hex \<Rightarrow> if hex = [] then Inr rest else Inr (hexToRgba hex a)
         | Inherited \<Rightarrow> Inl TypeError
         | Absent \<Rightarrow> Inr rest)"

section \<open>Chart data (ChartRenderer.tsx, final version)\<close>

definition numericCols :: "ChartRendererProps \<Rightarrow> string list" where
  "numericCols p = numericColumns (headers (table p)) (rows (table p))"

definition catCols :: "ChartRendererProps \<Rightarrow> string list" where
  "catCols p = categoricalColumns (headers (table p)) (rows (table p))"

text \<open>\<^verbatim>\<open>a || b\<close> on optional texts.\<close>

definition js_or :: "string option \<Rightarrow> string option \<Rightarrow> string option" where
  "js_or a b = (case truthy a of Some s \<Rightarrow> Some s | None \<Rightarrow> b)"

definition x_field :: "ChartRendererProps \<Rightarrow> string option" where
  "x_field p = js_or (js_or (xField p) (nth_opt (catCols p) 0)) (nth_opt (headers (table p)) 0)"

definition y_field :: "ChartRendererProps \<Rightarrow> string option" where
  "y_field p = js_or (js_or (yField p) (nth_opt (numericCols p) 0)) (nth_opt (headers (table p)) 1)"

text \<open>\<^verbatim>\<open>r[k]\<close>: an undefined key is read as the property named \<^verbatim>\<open>undefined\<close>.\<close>

definition get :: "number row \<Rightarrow> string option \<Rightarrow> number cell option" where
  "get r k = r (case k of None \<Rightarrow> ''undefined'' | Some s \<Rightarrow> s)"

text \<open>\<^verbatim>\<open>r[x] ?? `Row ${i + 1}`\<close>, with the prefix of the synthetic label as a parameter.\<close>

definition label_of :: "string \<Rightarrow> number cell option \<Rightarrow> nat \<Rightarrow> number cell" where
  "label_of pre v i =
     (case v of
        Some (Num n) \<Rightarrow> Num n
      | Some (Str s) \<Rightarrow> Str s
      | _ \<Rightarrow> Str (pre @ show_nat (i + 1)))"

text \<open>\<^verbatim>\<open>typeof v === "number" ? v : NaN\<close>; \<^term>\<open>None\<close> is NaN.\<close>

definition num_or_nan :: "number cell option \<Rightarrow> number option" where
  "num_or_nan v = (case v of Some (Num n) \<Rightarrow> Some n | _ \<Rightarrow> None)"

definition labels :: "ChartRendererProps \<Rightarrow> number cell list" where
  "labels p = map (\<lambda>(i, r). label_of ''Row '' (get r (x_field p)) i) (enumerate 0 (rows (table p)))"

definition values_of :: "ChartRendererProps \<Rightarrow> number option list" where
  "values_of p = map (\<lambda>r. num_or_nan (get r (y_field p))) (rows (table p))"

text \<open>
  The results of an \<^verbatim>\<open>Array.prototype.map\<close> whose callback may throw: the first error
  ends it.
\<close>

fun results :: "(error + 'a) list \<Rightarrow> error + 'a list" where
  "results [] = Inr []"
| "results (x # xs) =
     (case x of
        Inl e \<Rightarrow> Inl e
      | Inr v \<Rightarrow> (case results xs of Inl e \<Rightarrow> Inl e | Inr vs \<Rightarrow> Inr (v # vs)))"

definition label_colors ::
  "host \<Rightarrow> ChartRendererProps \<Rightarrow> number cell list \<Rightarrow> real \<Rightarrow> error + color list" where
  "label_colors H p ls a = results (map (\<lambda>(i, lbl). colorFor H p i lbl a) (enumerate 0 ls))"

subsection \<open>Scatter\<close>

definition scatter_rows ::
  "ChartRendererProps \<Rightarrow> string option \<Rightarrow> string option \<Rightarrow> number row list" where
  "scatter_rows p xNum yNum =
     filter (\<lambda>r. is_number (get r xNum) \<and> is_number (get r yNum)) (rows (table p))"

definition point_of ::
  "string option \<Rightarrow> string option \<Rightarrow> number row \<Rightarrow> number cell option \<times> number cell option" where
  "point_of xNum yNum r = (get r xNum, get r yNum)"

subsection \<open>Heatmap\<close>

text \<open>\<^verbatim>\<open>Array.from(new Set(xs))\<close>: each element once, in the order of first occurrence.\<close>

definition js_Set_of :: "'a list \<Rightarrow> 'a list" where
  "js_Set_of xs = fold (\<lambda>x acc. if x \<in> set acc then acc else acc @ [x]) xs []"

text \<open>\<^verbatim>\<open>v || 0\<close>: undefined, null, 0 and the empty text become 0.\<close>

definition or_zero :: "number cell option \<Rightarrow> number cell" where
  "or_zero v =
     (case v of
        Some (Num n) \<Rightarrow> Num n
      | Some (Str s) \<Rightarrow> if s = [] then Num (Finite 0) else Str s
      | _ \<Rightarrow> Num (Finite 0))"

definition heatmap_match ::
  "ChartRendererProps \<Rightarrow> number cell option \<Rightarrow> number cell option \<Rightarrow> number row \<Rightarrow> bool" where
  "heatmap_match p xc yc r =
     (get r (nth_opt (catCols p) 0) = xc
      \<and> (truthy (nth_opt (catCols p) 1) = None \<or> get r (nth_opt (catCols p) 1) = yc))"

definition heatmap_v ::
  "ChartRendererProps \<Rightarrow> number cell option \<Rightarrow> number cell option \<Rightarrow> number cell" where
  "heatmap_v p xc yc =
     or_zero (case find (heatmap_match p xc yc) (rows (table p)) of
                None \<Rightarrow> None
              | Some r \<Rightarrow> get r (nth_opt (numericCols p) 0))"

definition xCats :: "ChartRendererProps \<Rightarrow> number cell option list" where
  "xCats p =
     (if truthy (nth_opt (catCols p) 0) \<noteq> None
      then js_Set_of (map (\<lambda>r. get r (nth_opt (catCols p) 0)) (rows (table p)))
      else map Some (labels p))"

definition yCats :: "ChartRendererProps \<Rightarrow> number cell option list" where
  "yCats p =
     (if truthy (nth_opt (catCols p) 1) \<noteq> None
      then js_Set_of (map (\<lambda>r. get r (nth_opt (catCols p) 1)) (rows (table p)))
      else [Some (Str ''Value'')])"

definition heatmap_cells :: "ChartRendererProps \<Rightarrow> (nat \<times> nat \<times> number cell) list" where
  "heatmap_cells p =
     concat (map (\<lambda>(yi, yc). map (\<lambda>(xi, xc). (xi, yi, heatmap_v p xc yc)) (enumerate 0 (xCats p)))
               (enumerate 0 (yCats p)))"

text \<open>
  \<^verbatim>\<open>backgroundColor: (ctx) => fromUser("--chart-neon-3", 1)\<close>: the color of a cell, as a
  function of the cell the drawing library passes in.
\<close>

definition heatmap_backgroundColor ::
  "host \<Rightarrow> ChartRendererProps \<Rightarrow> nat \<times> nat \<times> number cell \<Rightarrow> color" where
  "heatmap_backgroundColor H p ctx = fromUser H p ''--chart-neon-3'' 1"

subsection \<open>Funnel\<close>

text \<open>
  \<^verbatim>\<open>Array.prototype.sort\<close> with a comparison function is a stable sort; a result of the
  comparison that is NaN counts as zero. An element goes before the first one it does not
  compare greater than. With a consistent comparison this is the one stable sorted
  arrangement, whatever algorithm the engine runs.
\<close>

fun insert_by :: "('a \<Rightarrow> 'a \<Rightarrow> jsnum) \<Rightarrow> 'a \<Rightarrow> 'a list \<Rightarrow> 'a list" where
  "insert_by cmp x [] = [x]"
| "insert_by cmp x (y # ys) =
     (if js_positive (cmp x y) then y # insert_by cmp x ys else x # y # ys)"

definition js_sort :: "('a \<Rightarrow> 'a \<Rightarrow> jsnum) \<Rightarrow> 'a list \<Rightarrow> 'a list" where
  "js_sort cmp xs = foldr (insert_by cmp) xs []"

definition funnel_item :: "ChartRendererProps \<Rightarrow> nat \<times> number row \<Rightarrow> number cell \<times> number" where
  "funnel_item p = (\<lambda>(i, r).
     (label_of ''Step '' (get r (x_field p)) i,
      (case get r (y_field p) of Some (Num n) \<Rightarrow> n | _ \<Rightarrow> Finite 0)))"

text \<open>\<^verbatim>\<open>(a, b) => b.value - a.value\<close>\<close>

definition by_value_desc :: "number cell \<times> number \<Rightarrow> number cell \<times> number \<Rightarrow> jsnum" where
  "by_value_desc a b = js_sub (jsnum_of (snd b)) (jsnum_of (snd a))"

definition funnel_sorted :: "ChartRendererProps \<Rightarrow> (number cell \<times> number) list" where
  "funnel_sorted p = js_sort by_value_desc (map (funnel_item p) (enumerate 0 (rows (table p))))"

text \<open>
  The bar thickness at a data index:
  \<^verbatim>\<open>max = Math.max(...sorted.map((s) => s.value)) || 1\<close>,
  \<^verbatim>\<open>v = sorted[ctx.dataIndex]?.value || 0\<close>, \<^verbatim>\<open>pct = v / max\<close> and
  \<^verbatim>\<open>Math.max(24, 48 * pct)\<close>. With no bar at all \<^verbatim>\<open>Math.max()\<close> is minus infinity.
\<close>

definition barThickness :: "host \<Rightarrow> (number cell \<times> number) list \<Rightarrow> nat \<Rightarrow> jsnum" where
  "barThickness H items dataIndex =
     (let mx = js_or_num (js_Math_max (map (\<lambda>s. jsnum_of (snd s)) items)) (Fin 1);
          v = (case nth_opt items dataIndex of
                 None \<Rightarrow> Fin 0
               | Some s \<Rightarrow> js_or_num (jsnum_of (snd s)) (Fin 0));
          pct = js_div H v mx
      in js_max (Fin 24) (js_mul H (Fin 48) pct))"

subsection \<open>The data handed to the drawing library, per chart kind\<close>

text \<open>
  Each constructor holds the \<^verbatim>\<open>data\<close> object of one branch of the renderer: labels,
  the label of the dataset, its values and its colors, in the order of the source.
  Constant style options (tension, radius, border width) and the sizes computed from the
  chart area are not part of it.
\<close>

datatype chart_data =
    PieData "number cell list" "string option" "number option list" "color list" color
  | LineData "number cell list" "string option" "number option list" color color
      "color list" "color list"
  | ScatterMessage
  | ScatterData string "(number cell option \<times> number cell option) list" "color list"
  | HeatmapData "number cell option list" "string option" "(nat \<times> nat \<times> number cell) list"
      "nat \<times> nat \<times> number cell \<Rightarrow> color" color
  | ComboData "number cell list" "string option" "number option list" "color list" "color list"
      "(string \<times> number option list \<times> color \<times> color) option"
  | FunnelData "number cell list" "string option" "number list" "color list" "nat \<Rightarrow> jsnum"
  | BarData bool "number cell list" "string option" "number option list" "color list" "color list"

definition text_of :: "string option \<Rightarrow> string" where
  "text_of k = (case k of None \<Rightarrow> ''undefined'' | Some s \<Rightarrow> s)"

text \<open>
  The renderer returns the data of the chart, or throws when the resolution of a color
  throws. The colors of a dataset are computed in the order of the source.
\<close>

definition ChartRenderer :: "host \<Rightarrow> ChartRendererProps \<Rightarrow> error + chart_data" where
  "ChartRenderer H p =
     (if chart p = Pie then
        (case label_colors H p (labels p) 1 of
           Inl e \<Rightarrow> Inl e
         | Inr bg \<Rightarrow>
             Inr (PieData (labels p) (y_field p) (values_of p) bg
                    (hslVar H ''--foreground'' (Some (rnd H 0.15)) None)))
      else if chart p = Line then
        (case label_colors H p (labels p) 1 of
           Inl e \<Rightarrow> Inl e
         | Inr pbg \<Rightarrow>
             (case label_colors H p (labels p) 1 of
                Inl e \<Rightarrow> Inl e
              | Inr pbd \<Rightarrow>
                  Inr (LineData (labels p) (y_field p) (values_of p)
                         (fromUser H p ''--chart-neon-1'' 1) (fromUser H p ''--chart-neon-1'' 1)
                         pbg pbd)))
      else if chart p = Scatter then
        (if numericCols p = [] then Inr ScatterMessage
         else
           (let xNum = nth_opt (numericCols p) 0;
                yNum = js_or (nth_opt (numericCols p) 1) (nth_opt (numericCols p) 0)
            in case results
                      (map (\<lambda>(i, r). colorFor H p i (label_of ''Row '' (get r (x_field p)) i)
                                       (max (rnd H 0.2) alphaBase))
                         (enumerate 0 (scatter_rows p xNum yNum))) of
                 Inl e \<Rightarrow> Inl e
               | Inr bg \<Rightarrow>
                   Inr (ScatterData (text_of xNum @ '' vs '' @ text_of yNum)
                          (map (point_of xNum yNum) (scatter_rows p xNum yNum)) bg)))
      else if chart p = Heatmap then
        Inr (HeatmapData (xCats p) (nth_opt (numericCols p) 0) (heatmap_cells p)
               (heatmap_backgroundColor H p) (hslVar H ''--border'' None None))
      else if chart p = Combo then
        (let y2 = js_or (y2Field p) (nth_opt (numericCols p) 1) in
         case label_colors H p (labels p) alphaBase of
           Inl e \<Rightarrow> Inl e
         | Inr bg \<Rightarrow>
             (case label_colors H p (labels p) 1 of
                Inl e \<Rightarrow> Inl e
              | Inr bd \<Rightarrow>
                  Inr (ComboData (labels p) (y_field p) (values_of p) bg bd
                         (case truthy y2 of
                            None \<Rightarrow> None
                          | Some k \<Rightarrow>
                              Some (k, map (\<lambda>r. num_or_nan (get r (Some k))) (rows (table p)),
                                    hslVar H ''--chart-neon-1'' None None,
                                    hslVar H ''--chart-neon-1'' (Some 1) None)))))
      else if chart p = Funnel then
        (case label_colors H p (map fst (funnel_sorted p)) 1 of
           Inl e \<Rightarrow> Inl e
         | Inr bg \<Rightarrow>
             Inr (FunnelData (map fst (funnel_sorted p)) (y_field p) (map snd (funnel_sorted p))
                    bg (barThickness H (funnel_sorted p))))
      else
        (case label_colors H p (labels p) alphaBase of
           Inl e \<Rightarrow> Inl e
         | Inr bg \<Rightarrow>
             (case label_colors H p (labels p) 1 of
                Inl e \<Rightarrow> Inl e
              | Inr bd \<Rightarrow>
                  Inr (BarData (chart p = Bar) (labels p) (y_field p) (values_of p) bg bd))))"

section \<open>Chart data (ChartRenderer.tsx, middle version): the heatmap cell color\<close>

text \<open>
  The middle version of the renderer scales the alpha of a heatmap cell:
  \<^verbatim>\<open>base = clamp(v / (Math.max(...values) || 1))\<close> and
  \<^verbatim>\<open>a = clamp(base * (opacity ?? 1))\<close>, where \<open>clamp\<close> is
  \<^verbatim>\<open>Math.max(0.05, Math.min(1, _))\<close>. \<open>vals\<close> are the values of the y column
  (\<^term>\<open>None\<close> is NaN, and then the maximum is NaN and replaced by 1; with no value at
  all the maximum is minus infinity and the quotient is zero); \<open>v\<close> is a numeric cell
  value. The numbers are finite here and the arithmetic is written without rounding.
\<close>

definition clamp_alpha :: "real \<Rightarrow> real" where
  "clamp_alpha a = max 0.05 (min 1 a)"

definition heatmap_backgroundColor_v2 ::
  "host \<Rightarrow> ChartRendererProps \<Rightarrow> real option list \<Rightarrow> real \<Rightarrow> color" where
  "heatmap_backgroundColor_v2 H p vals v =
     (let base =
            (if vals = [] then clamp_alpha 0
             else if None \<in> set vals then clamp_alpha (v / 1)
             else (let m = Max (set (List.map_filter id vals)) in
                   clamp_alpha (v / (if m = 0 then 1 else m))));
          a = clamp_alpha (base * (case opacity p of None \<Rightarrow> 1 | Some ov \<Rightarrow> ov))
      in fromUser H p ''--chart-neon-3'' a)"

section \<open>Readings of the specification\<close>

text \<open>
  The rule of the specification for the fetched URL, in its own words: everything from the
  first \<^verbatim>\<open>/edit\<close> onward is replaced by the export suffix with the gid digits (or 0);
  otherwise \<^verbatim>\<open>format=csv\<close> is appended unless the URL already asks for the CSV export.
\<close>

fun before_edit :: "string \<Rightarrow> string" where
  "before_edit [] = []"
| "before_edit (c # cs) = (if prefix ''/edit'' (c # cs) then [] else c # before_edit cs)"

definition url_rule_spec :: "string \<Rightarrow> string" where
  "url_rule_spec u =
     (if str_includes u ''/edit''
      then before_edit u @ ''/export?format=csv&gid=''
             @ (case match_gid u of Some d \<Rightarrow> d | None \<Rightarrow> ''0'')
      else if str_includes u ''export?format=csv'' then u
      else u @ (if str_includes u ''?'' then ''&'' else ''?'') @ ''format=csv'')"


text \<open>
  The specification calls the alpha steps of the monochrome palette alternating: from one
  index to the next the factor goes up and then down, or down and then up.
\<close>

definition alternating_at :: "(nat \<Rightarrow> real) \<Rightarrow> nat \<Rightarrow> bool" where
  "alternating_at f i =
     ((f i < f (i + 1) \<and> f (i + 2) < f (i + 1)) \<or> (f (i + 1) < f i \<and> f (i + 1) < f (i + 2)))"

text \<open>
  The cell intensity of the specification: the value over the largest value, clamped to
  the interval from 0.05 to 1.
\<close>

definition cell_intensity_spec :: "real \<Rightarrow> real \<Rightarrow> real" where
  "cell_intensity_spec v maxValue = max 0.05 (min 1 (v / maxValue))"

section \<open>Example inputs\<close>

text \<open>
  The renderer called with a table and a chart kind only (every optional property
  undefined), a host with a style sheet and a host without. Both compute without
  rounding. In the examples of the funnel the operands and the results are doubles, so
  that the code rounds nothing there either.
\<close>

abbreviation props :: "number DataTable \<Rightarrow> ChartKind \<Rightarrow> ChartRendererProps" where
  "props t k \<equiv>
     \<lparr>table = t, chart = k, xField = None, yField = None, y2Field = None, colorVar = None,
      customHex = None, opacity = None, palette = None, perValueColors = None\<rparr>"

abbreviation css_host :: host where
  "css_host \<equiv>
     \<lparr>css = Some (\<lambda>n. if n = ''--primary'' then ''210 40% 98%''
                       else if n = ''--chart-neon-1'' then ''180 100% 50%'' else []),
      num_text = (\<lambda>n. []), rnd = (\<lambda>x. x), overflow = 2 ^ 1024\<rparr>"

text \<open>
  A host that rounds as binary64 arithmetic does (to the nearest double, ties to even) at
  the values that the monochrome factor meets at the indices 0, 1 and 2: the literals 0.6
  and 0.07 and the sum at index 1. The other results there are doubles already.
\<close>

abbreviation double_host :: host where
  "double_host \<equiv>
     \<lparr>css = None, num_text = (\<lambda>n. []),
      rnd = (\<lambda>x. if x = 0.6 then 5404319552844595 / 9007199254740992
                 else if x = 0.07 then 1261007895663739 / 18014398509481984
                 else if x = 12069647001352929 / 18014398509481984
                 then 377176468792279 / 562949953421312
                 else x),
      overflow = 2 ^ 1024\<rparr>"

abbreviation no_css :: host where
  "no_css \<equiv> \<lparr>css = None, num_text = (\<lambda>n. []), rnd = (\<lambda>x. x), overflow = 2 ^ 1024\<rparr>"

section \<open>Properties of the chart type suggestion\<close>

lemma is_number_iff: "is_number v \<longleftrightarrow> (\<exists>n. v = Some (Num n))"
  by (cases v rule: is_number.cases) simp_all

lemma is_string_iff: "is_string v \<longleftrightarrow> (\<exists>s. v = Some (Str s))"
  by (cases v rule: is_string.cases) simp_all

lemma numericColumns_spec:
  "numericColumns hs rs = filter (\<lambda>h. \<exists>r \<in> set rs. \<exists>n. r h = Some (Num n)) hs"
  by (simp add: numericColumns_def list_ex_iff is_number_iff)

lemma categoricalColumns_spec:
  "categoricalColumns hs rs = filter (\<lambda>h. \<exists>r \<in> set rs. \<exists>s. r h = Some (Str s)) hs"
  by (simp add: categoricalColumns_def list_ex_iff is_string_iff)

text \<open>
  C1. For every table, with \<open>nn\<close> the number of headers that hold a Number in some row and
  \<open>ns\<close> the number of headers that hold a String in some row, suggestChartType returns
  scatter when \<open>nn \<ge> 2\<close>; else column when \<open>nn = 1\<close> and \<open>ns \<ge> 1\<close>; else pie when there
  are at most 2 headers and at most 8 rows; else line when there are more than 50 rows;
  else table. It never returns bar, combo, heatmap or funnel.
\<close>

theorem suggestChartType_precedence:
  "(let nn = length (filter (\<lambda>h. \<exists>r \<in> set rs. \<exists>n. r h = Some (Num n)) hs);
        ns = length (filter (\<lambda>h. \<exists>r \<in> set rs. \<exists>s. r h = Some (Str s)) hs)
    in suggestChartType hs rs =
         (if 2 \<le> nn then Scatter
          else if nn = 1 \<and> 1 \<le> ns then Column
          else if length hs \<le> 2 \<and> length rs \<le> 8 then Pie
          else if 50 < length rs then Line
          else Table))
   \<and> suggestChartType hs rs \<notin> {Bar, Combo, Heatmap, Funnel}"
  by (simp add: suggestChartType_def numericColumns_spec categoricalColumns_spec Let_def)

theorem suggestChartType_precedence_witness:
  "suggestChartType [''Category'', ''Value'']
     [[''Category'' \<mapsto> Str ''a'', ''Value'' \<mapsto> Num (1::int)],
      [''Category'' \<mapsto> Str ''b'', ''Value'' \<mapsto> Null]] = Column
   \<and> suggestChartType [''A'', ''B''] [[''A'' \<mapsto> Str ''x'', ''B'' \<mapsto> (Null :: int cell)]] = Pie"
  using suggestChartType_precedence
    [of "[[''Category'' \<mapsto> Str ''a'', ''Value'' \<mapsto> Num (1::int)],
          [''Category'' \<mapsto> Str ''b'', ''Value'' \<mapsto> Null]]" "[''Category'', ''Value'']"]
    suggestChartType_precedence
    [of "[[''A'' \<mapsto> Str ''x'', ''B'' \<mapsto> (Null :: int cell)]]" "[''A'', ''B'']"]
  by (simp add: Let_def)

section \<open>Properties of the cell coercion\<close>














section \<open>Properties of the delimited-text parsers\<close>

lemma csv_row_dom_aux:
  "list_all (\<lambda>h. h \<noteq> None \<and> h \<noteq> Some ''__proto__'') header \<Longrightarrow>
   dom (fst (foldl (\<lambda>st (i, h). assign st (row_key h i) (f i)) (m, b) (enumerate n header)))
     = dom m \<union> set (map the header)"
proof (induction header arbitrary: m n)
  case Nil
  then show ?case by simp
next
  case (Cons h hs)
  from Cons.prems obtain t where h: "h = Some t" "t \<noteq> ''__proto__''"
    by (cases h) auto
  define m' where "m' = m(t \<mapsto> f n)"
  have a: "assign (m, b) (row_key (Some t) n) (f n) = (m', b)"
    using h by (simp add: assign_def row_key_def m'_def)
  have d: "dom m' = insert t (dom m)"
    by (simp add: m'_def)
  from Cons.prems have "list_all (\<lambda>h. h \<noteq> None \<and> h \<noteq> Some ''__proto__'') hs"
    by simp
  from Cons.IH [OF this, of m' "Suc n"] show ?case
    using h by (simp add: a d)
qed

lemma csv_row_dom:
  "list_all (\<lambda>h. h \<noteq> None \<and> h \<noteq> Some ''__proto__'') header \<Longrightarrow>
   dom (csv_row N isNaN header r) = set (map the header)"
  unfolding csv_row_def by (simp add: csv_row_dom_aux)

lemma header_name_strings:
  "list_all (\<lambda>h. h \<noteq> None) header \<Longrightarrow> map header_name header = map the header"
  by (induction header) (auto simp: header_name_def)

lemma strings_only:
  "list_all (\<lambda>h. h \<noteq> None \<and> h \<noteq> Some ''__proto__'') header \<Longrightarrow>
   list_all (\<lambda>h. h \<noteq> None) header"
  by (induction header) auto

lemma distinct_strings:
  assumes "list_all (\<lambda>h. h \<noteq> None) header"
  shows "distinct (map the header) \<longleftrightarrow> distinct header"
proof -
  have "inj_on the (set header)"
  proof (rule inj_onI)
    fix x y :: "'a option"
    assume "x \<in> set header" "y \<in> set header" and eq: "the x = the y"
    with assms have "x \<noteq> None" "y \<noteq> None"
      by (simp_all add: list_all_iff)
    with eq show "x = y" by (cases x; cases y) simp_all
  qed
  then show ?thesis by (simp add: distinct_map)
qed

text \<open>
  C5, as the claim states it, fails: the parsers copy the header cells as they are. A
  header row that repeats a name gives a headers sequence with a duplicate, and an empty
  header cell stays the empty name. And a header cell \<^verbatim>\<open>__proto__\<close> is a header of the
  table but not a key of its rows: for the header row \<^verbatim>\<open>__proto__,b\<close> and the record
  \<^verbatim>\<open>1,2\<close> the row has the one key \<^verbatim>\<open>b\<close>.
\<close>

theorem parse_headers_counterexample:
  "parseCSV_table js_Number js_isNaN [[Some ''a'', Some ''a'']]
     = Inr \<lparr>headers = [''a'', ''a''], rows = []\<rparr>
   \<and> \<not> distinct (headers (parseGoogleSheet_table js_Number js_isNaN [[Some ''a'', Some ''a'']]))
   \<and> headers (parseGoogleSheet_table js_Number js_isNaN [[Some [], Some ''b'']]) = [[], ''b'']
   \<and> headers (parseGoogleSheet_table js_Number js_isNaN
        [[Some ''__proto__'', Some ''b''], [Some ''1'', Some ''2'']]) = [''__proto__'', ''b'']
   \<and> dom (csv_row js_Number js_isNaN [Some ''__proto__'', Some ''b''] [Some ''1'', Some ''2''])
        = {''b''}"
  by (simp add: parseCSV_table_def parseGoogleSheet_table_def header_name_def csv_row_def
      assign_def row_key_def)

text \<open>
  C5, amended. For every table that the delimited-text parsers produce from a header row
  of strings (what the delimited-text library yields) none of which is \<^verbatim>\<open>__proto__\<close>,
  both parsers give the same table; its headers are the header row's cells in order,
  unchanged; every row's key set is the set of the headers; and the headers have no
  duplicate exactly when the header row has none.
\<close>

theorem parse_headers_from_strings:
  assumes "list_all (\<lambda>h. h \<noteq> None \<and> h \<noteq> Some ''__proto__'') header"
  shows "parseCSV_table N isNaN (header # rs) = Inr (parseGoogleSheet_table N isNaN (header # rs))
     \<and> headers (parseGoogleSheet_table N isNaN (header # rs)) = map the header
     \<and> (\<forall>r \<in> set (rows (parseGoogleSheet_table N isNaN (header # rs))).
           dom r = set (headers (parseGoogleSheet_table N isNaN (header # rs))))
     \<and> (distinct (headers (parseGoogleSheet_table N isNaN (header # rs))) \<longleftrightarrow> distinct header)"
  using assms strings_only [OF assms]
  by (simp add: parseCSV_table_def parseGoogleSheet_table_def header_name_strings
      distinct_strings csv_row_dom)

theorem parse_headers_from_strings_witness:
  "list_all (\<lambda>h. h \<noteq> None \<and> h \<noteq> Some ''__proto__'') [Some ''a'', Some ''b'']
   \<and> headers (parseGoogleSheet_table js_Number js_isNaN
        [[Some ''a'', Some ''b''], [Some ''1'', Some ''x'']]) = [''a'', ''b'']
   \<and> dom (csv_row js_Number js_isNaN [Some ''a'', Some ''b''] [Some ''1'', Some ''x''])
        = {''a'', ''b''}"
proof -
  have h: "list_all (\<lambda>h. h \<noteq> None \<and> h \<noteq> Some ''__proto__'') [Some ''a'', Some ''b'']" by simp
  show ?thesis
    using parse_headers_from_strings [OF h, of js_Number js_isNaN "[[Some ''1'', Some ''x'']]"]
    by (simp add: parseGoogleSheet_table_def)
qed

section \<open>Properties of the export URL\<close>

lemma replace_edit_no_terminator:
  "\<not> list_ex is_line_terminator e \<Longrightarrow>
   replace_edit repl e = (if str_includes e ''/edit'' then before_edit e @ repl else e)"
proof (induction e)
  case Nil
  then show ?case by simp
next
  case (Cons c cs)
  have "\<not> list_ex is_line_terminator (drop 5 (c # cs))"
    using Cons.prems by (auto simp: list_ex_iff dest: in_set_dropD)
  moreover have "\<not> list_ex is_line_terminator cs"
    using Cons.prems by simp
  ultimately show ?case using Cons.IH by (simp del: drop_Suc_Cons)
qed

lemma trim_subset: "set (trim s) \<subseteq> set s"
  unfolding trim_def by (auto dest!: set_dropWhileD)

text \<open>
  C8, as the claim states it, fails: the code trims the URL before it applies the rule, so
  a URL with white space around it is not otherwise unchanged. For the input
  \<^verbatim>\<open>" x/edit?gid=7 "\<close> the fetched URL starts with \<^verbatim>\<open>x\<close>, while the stated rule
  keeps the leading blank; for \<^verbatim>\<open>" a"\<close> the code fetches \<^verbatim>\<open>a?format=csv\<close>.
\<close>

theorem exportUrl_counterexample:
  "exportUrl '' x/edit?gid=7 '' = ''x/export?format=csv&gid=7''
   \<and> url_rule_spec '' x/edit?gid=7 '' = '' x/export?format=csv&gid=7''
   \<and> exportUrl '' a'' = ''a?format=csv''
   \<and> url_rule_spec '' a'' = '' a?format=csv''"
  by (simp add: exportUrl_def url_rule_spec_def trim_def is_ws_def is_digit_def
      is_line_terminator_def)

text \<open>
  C8, amended. For every input URL without a line break in it, the fetched URL is the
  stated rule applied to the URL with the white space at both ends removed: if the trimmed
  URL contains \<^verbatim>\<open>/edit\<close>, everything from the first \<^verbatim>\<open>/edit\<close> onward is replaced by
  \<^verbatim>\<open>/export?format=csv&gid=<id>\<close>, where the id is the digits after the first \<^verbatim>\<open>gid=\<close>
  that is followed by a digit, else 0; otherwise \<^verbatim>\<open>format=csv\<close> is appended with
  \<^verbatim>\<open>?\<close> or \<^verbatim>\<open>&\<close> unless the trimmed URL contains \<^verbatim>\<open>export?format=csv\<close>.
\<close>

theorem exportUrl_rule:
  assumes "\<not> list_ex is_line_terminator url"
  shows "exportUrl url = url_rule_spec (trim url)"
proof -
  have "\<not> list_ex is_line_terminator (trim url)"
    using assms trim_subset [of url] by (auto simp: list_ex_iff)
  then show ?thesis
    by (simp add: exportUrl_def url_rule_spec_def Let_def replace_edit_no_terminator)
qed

theorem exportUrl_rule_witness:
  "\<not> list_ex is_line_terminator ''https://x.y/d/abc/edit#gid=123''
   \<and> exportUrl ''https://x.y/d/abc/edit#gid=123'' = ''https://x.y/d/abc/export?format=csv&gid=123''"
proof -
  have h: "\<not> list_ex is_line_terminator ''https://x.y/d/abc/edit#gid=123''"
    by (simp add: is_line_terminator_def)
  have t: "trim ''https://x.y/d/abc/edit#gid=123'' = ''https://x.y/d/abc/edit#gid=123''"
    by (simp add: trim_def is_ws_def)
  show ?thesis
    using h exportUrl_rule [OF h] by (simp add: t url_rule_spec_def is_digit_def)
qed

section \<open>Properties of the color resolution\<close>

lemma hexToRgba_red: "hexToRgba ''#ff0000'' a = Rgba (Some 255) (Some 0) (Some 0) (max 0 (min 1 a))"
  by (simp add: hexToRgba_def parseInt16_def is_ws_def is_hex_def hex_val_def radix_val_def hex_digit_val_def
      is_digit_def)

lemma hexToRgba_green: "hexToRgba ''#00ff00'' a = Rgba (Some 0) (Some 255) (Some 0) (max 0 (min 1 a))"
  by (simp add: hexToRgba_def parseInt16_def is_ws_def is_hex_def hex_val_def radix_val_def hex_digit_val_def
      is_digit_def)

lemma trim_example: "trim ''180 100% 50%'' = ''180 100% 50%''" "trim ''210 40% 98%'' = ''210 40% 98%''"
  by (simp_all add: trim_def is_ws_def)

lemma per_value_unpinned:
  assumes "perValueColors p = None
      \<or> (\<exists>m. perValueColors p = Some m
            \<and> (m key = Some [] \<or> (m key = None \<and> key \<notin> set object_prototype_names)))"
  shows "per_value p key = Absent \<or> per_value p key = Own []"
  using assms by (auto simp: per_value_def)

text \<open>
  Where the per-value lookup gives a text or nothing, the color is resolved by the first
  match: the per-value color of the label when it is a text that is not empty; else the
  custom literal color when set; else the theme color slot when set; else the palette
  color, which is the palette's variable at index modulo the palette size (6 colorful,
  5 neon) or, for monochrome, the one variable \<^verbatim>\<open>--primary\<close> with a varied alpha. A
  variable that has no value resolves to the fixed default accent \<^verbatim>\<open>#00e5ff\<close>.
\<close>

lemma colorFor_pinned:
  "perValueColors p = Some m \<Longrightarrow> m (String_of H l) = Some c \<Longrightarrow> c \<noteq> [] \<Longrightarrow>
   colorFor H p i l a = Inr (hexToRgba c a)"
  by (simp add: colorFor_def per_value_def)

lemma colorFor_custom:
  assumes "per_value p (String_of H l) = Absent \<or> per_value p (String_of H l) = Own []"
    and "customHex p = Some c" and "c \<noteq> []"
  shows "colorFor H p i l a = Inr (hexToRgba c a)"
  using assms by (auto simp: colorFor_def)

lemma colorFor_theme:
  assumes "per_value p (String_of H l) = Absent \<or> per_value p (String_of H l) = Own []"
    and "customHex p = None \<or> customHex p = Some []"
    and "colorVar p = Some v" and "v \<noteq> []"
  shows "colorFor H p i l a = Inr (hslVar H v (Some a) None)"
  using assms by (auto simp: colorFor_def)

lemma colorFor_palette:
  assumes "per_value p (String_of H l) = Absent \<or> per_value p (String_of H l) = Own []"
    and "customHex p = None \<or> customHex p = Some []"
    and "colorVar p = None \<or> colorVar p = Some []"
  shows "colorFor H p i l a =
     Inr (case palette p of
            Some Colorful \<Rightarrow> hslVar H (colorfulVars ! (i mod 6)) (Some a) None
          | Some Monochrome \<Rightarrow>
              hslVar H ''--primary''
                (Some (max (rnd H 0.05) (min 1 (rnd H (a * mono_scale H i))))) None
          | _ \<Rightarrow> hslVar H (neonVars ! (i mod 5)) (Some a) None)"
  using assms
  by (auto simp: colorFor_def palette_of_def colorfulVars_def neonVars_def
      split: option.splits palette.splits)

lemma hslVar_fallback:
  "hslVar H name al None =
     (case css H of
        None \<Rightarrow> Lit ''#00e5ff''
      | Some style \<Rightarrow>
          if trim (style name) = [] then Lit ''#00e5ff'' else Hsl (trim (style name)) al)"
  by (simp add: hslVar_def default_accent_def Let_def split: option.splits)

lemma colorFor_inherited:
  "perValueColors p = Some m \<Longrightarrow> m (String_of H l) = None \<Longrightarrow>
   String_of H l \<in> set object_prototype_names \<Longrightarrow> colorFor H p i l a = Inl TypeError"
  by (simp add: colorFor_def per_value_def)

lemma colorFor_red_example:
  "perValueColors p = Some [''X'' \<mapsto> ''#ff0000''] \<Longrightarrow>
   colorFor H p i (Str ''X'') a = Inr (Rgba (Some 255) (Some 0) (Some 0) (max 0 (min 1 a)))"
  by (simp add: colorFor_def per_value_def hexToRgba_red)

text \<open>
  C3. The claim states the precedence that colorFor implements, and the code breaks it for
  a label that is the name of a member every object inherits. With the per-value object
  \<^verbatim>\<open>{}\<close> (no color pinned at all), no custom color and no theme slot, the label
  \<^verbatim>\<open>constructor\<close> at index 0 should resolve to the first neon palette color, as the
  label \<^verbatim>\<open>x\<close> does. The lookup \<^verbatim>\<open>perValueColors[key]\<close> finds the inherited member
  instead, takes it for a pinned color, and \<^verbatim>\<open>hexToRgba\<close> throws a TypeError; the
  renderer throws with it for a pie chart of a table that has this label.
\<close>

theorem colorFor_inherited_member:
  "colorFor css_host ((props \<lparr>headers = [], rows = []\<rparr> Pie)\<lparr>perValueColors := Some Map.empty\<rparr>)
     0 (Str ''constructor'') 1 = Inl TypeError
   \<and> colorFor css_host ((props \<lparr>headers = [], rows = []\<rparr> Pie)\<lparr>perValueColors := Some Map.empty\<rparr>)
     0 (Str ''x'') 1 = Inr (Hsl ''180 100% 50%'' (Some 1))
   \<and> ChartRenderer css_host
       ((props \<lparr>headers = [''c'', ''v''],
            rows = [[''c'' \<mapsto> Str ''constructor'', ''v'' \<mapsto> Num (Finite 1)]]\<rparr> Pie)
          \<lparr>perValueColors := Some Map.empty\<rparr>) = Inl TypeError"
  by (simp add: colorFor_def per_value_def object_prototype_names_def palette_of_def
      neonVars_def hslVar_def trim_example ChartRenderer_def label_colors_def labels_def
      x_field_def js_or_def catCols_def categoricalColumns_def get_def label_of_def)

section \<open>Properties of the monochrome palette\<close>

lemma mono_scale_mod: "mono_scale H i = mono_scale H (i mod 6)"
  by (simp add: mono_scale_def)

lemma mono_scale_step:
  assumes "rounding H" and "i mod 6 < 5"
  shows "mono_scale H i \<le> mono_scale H (i + 1)"
proof -
  from assms(1) have m: "\<And>x y. x \<le> y \<Longrightarrow> rnd H x \<le> rnd H y" and z: "rnd H 0 = 0"
    by (auto simp: rounding_def mono_def)
  have s: "(i + 1) mod 6 = i mod 6 + 1"
    using assms(2) by presburger
  have "0 \<le> rnd H 0.07"
    using m [of 0 "0.07"] z by simp
  then have "real (i mod 6) * rnd H 0.07 \<le> real (i mod 6 + 1) * rnd H 0.07"
    by (simp add: mult_right_mono)
  then have "rnd H (real (i mod 6) * rnd H 0.07) \<le> rnd H (real (i mod 6 + 1) * rnd H 0.07)"
    by (rule m)
  then have "rnd H 0.6 + rnd H (real (i mod 6) * rnd H 0.07)
      \<le> rnd H 0.6 + rnd H (real (i mod 6 + 1) * rnd H 0.07)"
    by simp
  then show ?thesis
    unfolding mono_scale_def s by (rule m)
qed

lemma mono_scale_not_alternating:
  assumes "rounding H" and "i mod 6 < 4"
  shows "\<not> alternating_at (mono_scale H) i"
proof -
  have a: "i mod 6 < 5" "(i + 1) mod 6 < 5"
    using assms(2) by presburger+
  from mono_scale_step [OF assms(1) a(1)] mono_scale_step [OF assms(1) a(2)]
  show ?thesis by (simp add: alternating_at_def)
qed

lemma monochrome_clamp:
  assumes "rounding H"
  shows "0 \<le> rnd H 0.05 \<and> rnd H 0.05 \<le> max (rnd H 0.05) (min 1 x) \<and> max (rnd H 0.05) (min 1 x) \<le> 1"
proof -
  from assms have m: "\<And>x y. x \<le> y \<Longrightarrow> rnd H x \<le> rnd H y" and z: "rnd H 0 = 0" "rnd H 1 = 1"
    by (auto simp: rounding_def mono_def)
  from m [of 0 "0.05"] m [of "0.05" 1] z show ?thesis by simp
qed


text \<open>
  C9, as the claim states it, fails in one part: the alpha factor of the monochrome palette
  does not alternate. At the indices 0, 1 and 2 it is the double that prints as 0.6, as
  0.6699999999999999 and as 0.74: it rises, as it does through a cycle of six
  (\<open>mono_scale_not_alternating\<close>, for every monotone rounding).
\<close>

theorem monochrome_alpha_counterexample:
  "mono_scale double_host 0 = 5404319552844595 / 9007199254740992
   \<and> mono_scale double_host 1 = 377176468792279 / 562949953421312
   \<and> mono_scale double_host 2 = 3332663724254167 / 4503599627370496
   \<and> \<not> alternating_at (mono_scale double_host) 0"
  by (simp add: mono_scale_def alternating_at_def)

text \<open>
  C9, amended. In monochrome palette mode with no per-value, custom or theme override,
  for a label that the per-value object does not inherit a member for, and for every index
  and caller-supplied alpha, the color is the one variable \<^verbatim>\<open>--primary\<close> (one base hue,
  when the variable has a value) and only its alpha varies: the caller's alpha is
  multiplied by a factor and the product is clamped to the interval from 0.05 to 1. The
  factor is a function of the index modulo 6, \<^verbatim>\<open>0.6 + (index % 6) * 0.07\<close> in the
  arithmetic of doubles; from one index to the next in a cycle of six it never goes down,
  so that it does not alternate, and it starts again after the cycle.
\<close>

theorem monochrome_alpha:
  assumes "perValueColors p = None
      \<or> (\<exists>m. perValueColors p = Some m
            \<and> (m (String_of H l) = Some []
                \<or> (m (String_of H l) = None \<and> String_of H l \<notin> set object_prototype_names)))"
    and "customHex p = None \<or> customHex p = Some []"
    and "colorVar p = None \<or> colorVar p = Some []"
    and "palette p = Some Monochrome"
  shows "colorFor H p i l a
           = Inr (hslVar H ''--primary''
                    (Some (max (rnd H 0.05) (min 1 (rnd H (a * mono_scale H i))))) None)
     \<and> (css H = Some style \<and> trim (style ''--primary'') \<noteq> []
          \<longrightarrow> colorFor H p i l a
                = Inr (Hsl (trim (style ''--primary''))
                         (Some (max (rnd H 0.05) (min 1 (rnd H (a * mono_scale H i)))))))
     \<and> mono_scale H i = mono_scale H (i mod 6)
     \<and> (rounding H \<and> i mod 6 < 5 \<longrightarrow> mono_scale H i \<le> mono_scale H (i + 1))
     \<and> (rounding H \<and> i mod 6 < 4 \<longrightarrow> \<not> alternating_at (mono_scale H) i)
     \<and> (rounding H \<longrightarrow>
          0 \<le> rnd H 0.05
          \<and> rnd H 0.05 \<le> max (rnd H 0.05) (min 1 (rnd H (a * mono_scale H i)))
          \<and> max (rnd H 0.05) (min 1 (rnd H (a * mono_scale H i))) \<le> 1)"
proof -
  have c: "colorFor H p i l a
           = Inr (hslVar H ''--primary''
                    (Some (max (rnd H 0.05) (min 1 (rnd H (a * mono_scale H i))))) None)"
    using colorFor_palette [OF per_value_unpinned [OF assms(1)] assms(2) assms(3), of i a]
    by (simp add: assms(4))
  have h: "css H = Some style \<and> trim (style ''--primary'') \<noteq> []
          \<longrightarrow> hslVar H ''--primary'' al None = Hsl (trim (style ''--primary'')) al" for al
    by (simp add: hslVar_def Let_def)
  from c h mono_scale_mod [of H i] mono_scale_step [of H i] mono_scale_not_alternating [of H i]
    monochrome_clamp [of H "rnd H (a * mono_scale H i)"]
  show ?thesis by simp
qed

theorem monochrome_alpha_witness:
  "colorFor css_host ((props \<lparr>headers = [], rows = []\<rparr> Column)\<lparr>palette := Some Monochrome\<rparr>)
     0 (Str ''a'') 1
     = Inr (Hsl ''210 40% 98%'' (Some (rnd css_host 0.6)))
   \<and> \<not> alternating_at (mono_scale css_host) 0"
proof -
  have r: "rounding css_host" by (simp add: rounding_def mono_def)
  show ?thesis
    using monochrome_alpha
      [where p = "(props \<lparr>headers = [], rows = []\<rparr> Column)\<lparr>palette := Some Monochrome\<rparr>"
        and H = css_host and l = "Str ''a''" and i = 0 and a = 1
        and style = "\<lambda>n. if n = ''--primary'' then ''210 40% 98%''
                         else if n = ''--chart-neon-1'' then ''180 100% 50%'' else []"]
      r
    by (simp add: trim_example mono_scale_def hslVar_def)
qed

section \<open>Properties of the heatmap cell color\<close>

lemma hexToRgba_alpha1: "\<exists>r g b. hexToRgba hex 1 = Rgba r g b 1"
  by (simp add: hexToRgba_def Let_def)

text \<open>
  C6, as the claim states it, fails: in the final version the color of a heatmap cell does
  not depend on the cell. In a table with the values 0 and 10 and the custom color
  \<^verbatim>\<open>#ff0000\<close>, the cell of value 0 is painted with alpha 1, not with the intensity 0.05.
\<close>

theorem heatmap_color_counterexample:
  "heatmap_cells
     ((props \<lparr>headers = [''c'', ''v''],
          rows = [[''c'' \<mapsto> Str ''x'', ''v'' \<mapsto> Num (Finite 0)], [''c'' \<mapsto> Str ''y'', ''v'' \<mapsto> Num (Finite 10)]]\<rparr> Heatmap)
        \<lparr>customHex := Some ''#ff0000''\<rparr>)
     = [(0, 0, Num (Finite 0)), (1, 0, Num (Finite 10))]
   \<and> heatmap_backgroundColor no_css
     ((props \<lparr>headers = [''c'', ''v''],
          rows = [[''c'' \<mapsto> Str ''x'', ''v'' \<mapsto> Num (Finite 0)], [''c'' \<mapsto> Str ''y'', ''v'' \<mapsto> Num (Finite 10)]]\<rparr> Heatmap)
        \<lparr>customHex := Some ''#ff0000''\<rparr>)
     (0, 0, Num (Finite 0)) = Rgba (Some 255) (Some 0) (Some 0) 1
   \<and> cell_intensity_spec 0 10 = 0.05
   \<and> hexToRgba ''#ff0000'' (cell_intensity_spec 0 10) = Rgba (Some 255) (Some 0) (Some 0) 0.05"
proof -
  have "heatmap_cells
     ((props \<lparr>headers = [''c'', ''v''],
          rows = [[''c'' \<mapsto> Str ''x'', ''v'' \<mapsto> Num (Finite 0)], [''c'' \<mapsto> Str ''y'', ''v'' \<mapsto> Num (Finite 10)]]\<rparr> Heatmap)
        \<lparr>customHex := Some ''#ff0000''\<rparr>)
     = [(0, 0, Num (Finite 0)), (1, 0, Num (Finite 10))]"
    by (simp add: heatmap_cells_def xCats_def yCats_def catCols_def categoricalColumns_def
        numericCols_def numericColumns_def js_Set_of_def heatmap_v_def heatmap_match_def
        get_def or_zero_def)
  then show ?thesis
    by (simp add: heatmap_backgroundColor_def fromUser_def hexToRgba_red cell_intensity_spec_def)
qed

text \<open>
  C6, amended. In the final version of the heatmap mapping every cell has the same color,
  whatever its value: the custom literal color when set, else the theme color slot when
  set, else the variable \<^verbatim>\<open>--chart-neon-3\<close>, always with alpha 1.
\<close>

theorem heatmap_color_constant:
  assumes "chart p = Heatmap"
  shows "ChartRenderer H p =
           Inr (HeatmapData (xCats p) (nth_opt (numericCols p) 0) (heatmap_cells p)
                  (heatmap_backgroundColor H p) (hslVar H ''--border'' None None))
     \<and> heatmap_backgroundColor H p (xi, yi, v) = heatmap_backgroundColor H p (xi', yi', v')
     \<and> heatmap_backgroundColor H p (xi, yi, v) =
         (case truthy (customHex p) of
            Some hex \<Rightarrow> hexToRgba hex 1
          | None \<Rightarrow>
              (case truthy (colorVar p) of
                 Some var \<Rightarrow> hslVar H var (Some 1) None
               | None \<Rightarrow> hslVar H ''--chart-neon-3'' (Some 1) None))
     \<and> (\<exists>r g b. hexToRgba hex 1 = Rgba r g b 1)"
  using assms
  by (simp add: ChartRenderer_def heatmap_backgroundColor_def fromUser_def hexToRgba_alpha1)

theorem heatmap_color_constant_witness:
  "heatmap_backgroundColor no_css
     ((props \<lparr>headers = [''c'', ''v''],
          rows = [[''c'' \<mapsto> Str ''x'', ''v'' \<mapsto> Num (Finite 0)], [''c'' \<mapsto> Str ''y'', ''v'' \<mapsto> Num (Finite 10)]]\<rparr> Heatmap)
        \<lparr>customHex := Some ''#ff0000''\<rparr>) (0, 0, Num (Finite 0))
     = Rgba (Some 255) (Some 0) (Some 0) 1
   \<and> heatmap_backgroundColor no_css
     ((props \<lparr>headers = [''c'', ''v''],
          rows = [[''c'' \<mapsto> Str ''x'', ''v'' \<mapsto> Num (Finite 0)], [''c'' \<mapsto> Str ''y'', ''v'' \<mapsto> Num (Finite 10)]]\<rparr> Heatmap)
        \<lparr>customHex := Some ''#ff0000''\<rparr>) (1, 0, Num (Finite 10))
     = Rgba (Some 255) (Some 0) (Some 0) 1"
proof -
  have c: "chart ((props \<lparr>headers = [''c'', ''v''],
          rows = [[''c'' \<mapsto> Str ''x'', ''v'' \<mapsto> Num (Finite 0)], [''c'' \<mapsto> Str ''y'', ''v'' \<mapsto> Num (Finite 10)]]\<rparr> Heatmap)
        \<lparr>customHex := Some ''#ff0000''\<rparr>) = Heatmap"
    by simp
  note t = heatmap_color_constant
    [OF c, where H = "no_css"
      and xi = 0 and yi = 0 and v = "Num (Finite 0)" and xi' = 1 and yi' = 0 and v' = "Num (Finite 10)"]
  from t [THEN conjunct2, THEN conjunct1] t [THEN conjunct2, THEN conjunct2, THEN conjunct1]
  show ?thesis by (simp add: hexToRgba_red)
qed

lemma clamp_alpha_range: "0.05 \<le> clamp_alpha x \<and> clamp_alpha x \<le> 1"
  by (simp add: clamp_alpha_def)

lemma heatmap_backgroundColor_v2_clamped:
  "\<exists>a. 0.05 \<le> a \<and> a \<le> 1 \<and> heatmap_backgroundColor_v2 H p vals v = fromUser H p ''--chart-neon-3'' a"
  unfolding heatmap_backgroundColor_v2_def Let_def
  using clamp_alpha_range by blast

section \<open>Independence of the chart data from the opacity\<close>

lemma opacity_colorFor [simp]: "colorFor H (p\<lparr>opacity := ov\<rparr>) = colorFor H p"
  by (intro ext) (simp add: colorFor_def per_value_def palette_of_def cong: option.case_cong)

lemma opacity_fromUser [simp]: "fromUser H (p\<lparr>opacity := ov\<rparr>) = fromUser H p"
  by (intro ext) (simp add: fromUser_def split: option.splits)

lemma opacity_cols [simp]:
  "numericCols (p\<lparr>opacity := ov\<rparr>) = numericCols p" "catCols (p\<lparr>opacity := ov\<rparr>) = catCols p"
  by (simp_all add: numericCols_def catCols_def)

lemma opacity_fields [simp]:
  "x_field (p\<lparr>opacity := ov\<rparr>) = x_field p" "y_field (p\<lparr>opacity := ov\<rparr>) = y_field p"
  by (simp_all add: x_field_def y_field_def)

lemma opacity_labels [simp]:
  "labels (p\<lparr>opacity := ov\<rparr>) = labels p" "values_of (p\<lparr>opacity := ov\<rparr>) = values_of p"
  "label_colors H (p\<lparr>opacity := ov\<rparr>) = label_colors H p"
  "scatter_rows (p\<lparr>opacity := ov\<rparr>) = scatter_rows p"
  by (simp_all add: labels_def values_of_def label_colors_def scatter_rows_def fun_eq_iff)

lemma opacity_heatmap_match [simp]: "heatmap_match (p\<lparr>opacity := ov\<rparr>) = heatmap_match p"
  by (simp add: heatmap_match_def fun_eq_iff)

lemma opacity_heatmap_v [simp]: "heatmap_v (p\<lparr>opacity := ov\<rparr>) = heatmap_v p"
  by (simp add: heatmap_v_def fun_eq_iff cong: option.case_cong)

lemma opacity_cats [simp]:
  "xCats (p\<lparr>opacity := ov\<rparr>) = xCats p" "yCats (p\<lparr>opacity := ov\<rparr>) = yCats p"
  by (simp_all add: xCats_def yCats_def)

lemma opacity_heatmap [simp]:
  "heatmap_cells (p\<lparr>opacity := ov\<rparr>) = heatmap_cells p"
  "heatmap_backgroundColor H (p\<lparr>opacity := ov\<rparr>) = heatmap_backgroundColor H p"
  by (simp_all add: heatmap_cells_def heatmap_backgroundColor_def fun_eq_iff)

lemma opacity_funnel [simp]: "funnel_sorted (p\<lparr>opacity := ov\<rparr>) = funnel_sorted p"
  by (simp add: funnel_sorted_def funnel_item_def)

lemma ChartRenderer_opacity: "ChartRenderer H (p\<lparr>opacity := ov\<rparr>) = ChartRenderer H p"
  by (simp add: ChartRenderer_def cong: option.case_cong sum.case_cong)

text \<open>
  C10. In the final version the data computed for the drawing library (labels, values and
  all colors, for every chart kind) is the same for any two opacity values and otherwise
  identical properties; the internal base alpha is the constant 1.
\<close>

theorem ChartRenderer_opacity_independent:
  "ChartRenderer H (p\<lparr>opacity := o1\<rparr>) = ChartRenderer H (p\<lparr>opacity := o2\<rparr>) \<and> alphaBase = 1"
  by (simp add: ChartRenderer_opacity alphaBase_def)

lemma column_example:
  "ChartRenderer no_css
     ((props \<lparr>headers = [''c'', ''v''],
          rows = [[''c'' \<mapsto> Str ''x'', ''v'' \<mapsto> Num (Finite 3)], [''c'' \<mapsto> Str ''y'', ''v'' \<mapsto> Null]]\<rparr> Column)
        \<lparr>customHex := Some ''#ff0000'', opacity := Some 1\<rparr>)
   = Inr (BarData False [Str ''x'', Str ''y''] (Some ''v'') [Some (Finite 3), None]
            [Rgba (Some 255) (Some 0) (Some 0) 1, Rgba (Some 255) (Some 0) (Some 0) 1]
            [Rgba (Some 255) (Some 0) (Some 0) 1, Rgba (Some 255) (Some 0) (Some 0) 1])"
  by (simp add: ChartRenderer_def labels_def values_of_def label_colors_def x_field_def
      y_field_def js_or_def catCols_def categoricalColumns_def numericCols_def
      numericColumns_def get_def label_of_def num_or_nan_def colorFor_def per_value_def
      hexToRgba_red alphaBase_def)

theorem ChartRenderer_opacity_independent_witness:
  "ChartRenderer no_css
     ((props \<lparr>headers = [''c'', ''v''],
          rows = [[''c'' \<mapsto> Str ''x'', ''v'' \<mapsto> Num (Finite 3)], [''c'' \<mapsto> Str ''y'', ''v'' \<mapsto> Null]]\<rparr> Column)
        \<lparr>customHex := Some ''#ff0000'', opacity := Some 0.2\<rparr>)
   = Inr (BarData False [Str ''x'', Str ''y''] (Some ''v'') [Some (Finite 3), None]
            [Rgba (Some 255) (Some 0) (Some 0) 1, Rgba (Some 255) (Some 0) (Some 0) 1]
            [Rgba (Some 255) (Some 0) (Some 0) 1, Rgba (Some 255) (Some 0) (Some 0) 1])"
  using ChartRenderer_opacity_independent
    [where p = "(props \<lparr>headers = [''c'', ''v''],
          rows = [[''c'' \<mapsto> Str ''x'', ''v'' \<mapsto> Num (Finite 3)], [''c'' \<mapsto> Str ''y'', ''v'' \<mapsto> Null]]\<rparr> Column)
        \<lparr>customHex := Some ''#ff0000''\<rparr>"
      and H = no_css and ?o1.0 = "Some 0.2" and ?o2.0 = "Some 1"]
    column_example
  by simp

section \<open>Properties of the heatmap cell values\<close>


lemma heatmap_v_first:
  assumes "i < length (rows (table p))"
    and "heatmap_match p xc yc (rows (table p) ! i)"
    and "\<forall>j<i. \<not> heatmap_match p xc yc (rows (table p) ! j)"
  shows "heatmap_v p xc yc = or_zero (get (rows (table p) ! i) (nth_opt (numericCols p) 0))"
proof -
  have "find (heatmap_match p xc yc) (rows (table p)) = Some (rows (table p) ! i)"
    using assms by (auto simp: find_Some_iff)
  then show ?thesis by (simp add: heatmap_v_def)
qed

lemma heatmap_v_none:
  assumes "\<forall>r \<in> set (rows (table p)). \<not> heatmap_match p xc yc r"
  shows "heatmap_v p xc yc = Num (Finite 0)"
proof -
  have "find (heatmap_match p xc yc) (rows (table p)) = None"
    using assms by (simp add: find_None_iff)
  then show ?thesis by (simp add: heatmap_v_def or_zero_def)
qed

lemma enumerate_mem: "(i, x) \<in> set (enumerate 0 xs) \<longleftrightarrow> i < length xs \<and> x = xs ! i"
  by (auto simp: in_set_enumerate_eq)

lemma grid_set:
  "(xi, yi, v) \<in> set (concat (map (\<lambda>(yi, yc). map (\<lambda>(xi, xc). (xi, yi, g xc yc)) (enumerate 0 xs))
                                 (enumerate 0 ys)))
   \<longleftrightarrow> xi < length xs \<and> yi < length ys \<and> v = g (xs ! xi) (ys ! yi)"
proof
  assume "(xi, yi, v) \<in> set (concat (map (\<lambda>(yi, yc). map (\<lambda>(xi, xc). (xi, yi, g xc yc)) (enumerate 0 xs))
                                 (enumerate 0 ys)))"
  then show "xi < length xs \<and> yi < length ys \<and> v = g (xs ! xi) (ys ! yi)"
    by (auto simp: enumerate_mem)
next
  assume a: "xi < length xs \<and> yi < length ys \<and> v = g (xs ! xi) (ys ! yi)"
  then have y: "(yi, ys ! yi) \<in> set (enumerate 0 ys)" and x: "(xi, xs ! xi) \<in> set (enumerate 0 xs)"
    by (simp_all add: enumerate_mem)
  have "(xi, yi, v) \<in> set (map (\<lambda>(xi, xc). (xi, yi, g xc (ys ! yi))) (enumerate 0 xs))"
    using x a by force
  then show "(xi, yi, v) \<in> set (concat (map (\<lambda>(yi, yc). map (\<lambda>(xi, xc). (xi, yi, g xc yc)) (enumerate 0 xs))
                                 (enumerate 0 ys)))"
    using y by force
qed

lemma heatmap_cells_set:
  "(xi, yi, v) \<in> set (heatmap_cells p) \<longleftrightarrow>
     xi < length (xCats p) \<and> yi < length (yCats p) \<and> v = heatmap_v p (xCats p ! xi) (yCats p ! yi)"
  unfolding heatmap_cells_def by (rule grid_set)

lemma truthy_None_iff: "truthy k = None \<longleftrightarrow> k = None \<or> k = Some []"
  by (cases k) simp_all

lemma yField_heatmap_cells: "heatmap_cells (p\<lparr>yField := f\<rparr>) = heatmap_cells p"
proof -
  have c: "catCols (p\<lparr>yField := f\<rparr>) = catCols p" "numericCols (p\<lparr>yField := f\<rparr>) = numericCols p"
    by (simp_all add: catCols_def numericCols_def)
  have m: "heatmap_match (p\<lparr>yField := f\<rparr>) = heatmap_match p"
    by (simp add: heatmap_match_def fun_eq_iff c)
  have v: "heatmap_v (p\<lparr>yField := f\<rparr>) = heatmap_v p"
    by (simp add: heatmap_v_def fun_eq_iff c m cong: option.case_cong)
  have l: "labels (p\<lparr>yField := f\<rparr>) = labels p"
    by (simp add: labels_def x_field_def c)
  have x: "xCats (p\<lparr>yField := f\<rparr>) = xCats p" "yCats (p\<lparr>yField := f\<rparr>) = yCats p"
    by (simp_all add: xCats_def yCats_def c l)
  show ?thesis by (simp add: heatmap_cells_def v x)
qed

text \<open>
  C4, as the claim states it, fails: the cell value is not read from the y column. With
  the y field set to column \<^verbatim>\<open>b\<close>, the values of the y column are [2], and the heatmap
  cell still holds 1, the value of the first numeric column \<^verbatim>\<open>a\<close>. And the first
  matching row decides even when it holds no number: with the values null and 5 under the
  same category the cell holds 0.
\<close>

theorem heatmap_first_match_counterexample:
  "y_field
     ((props \<lparr>headers = [''c'', ''a'', ''b''],
          rows = [[''c'' \<mapsto> Str ''x'', ''a'' \<mapsto> Num (Finite 1), ''b'' \<mapsto> Num (Finite 2)]]\<rparr> Heatmap)
        \<lparr>yField := Some ''b''\<rparr>) = Some ''b''
   \<and> values_of
     ((props \<lparr>headers = [''c'', ''a'', ''b''],
          rows = [[''c'' \<mapsto> Str ''x'', ''a'' \<mapsto> Num (Finite 1), ''b'' \<mapsto> Num (Finite 2)]]\<rparr> Heatmap)
        \<lparr>yField := Some ''b''\<rparr>) = [Some (Finite 2)]
   \<and> heatmap_cells
     ((props \<lparr>headers = [''c'', ''a'', ''b''],
          rows = [[''c'' \<mapsto> Str ''x'', ''a'' \<mapsto> Num (Finite 1), ''b'' \<mapsto> Num (Finite 2)]]\<rparr> Heatmap)
        \<lparr>yField := Some ''b''\<rparr>)
     = [(0, 0, Num (Finite 1))]
   \<and> heatmap_cells
     (props \<lparr>headers = [''c'', ''v''],
          rows = [[''c'' \<mapsto> Str ''x'', ''v'' \<mapsto> Null], [''c'' \<mapsto> Str ''x'', ''v'' \<mapsto> Num (Finite 5)]]\<rparr> Heatmap)
     = [(0, 0, Num (Finite 0))]"
  by (simp add: y_field_def values_of_def js_or_def num_or_nan_def
      heatmap_cells_def xCats_def yCats_def catCols_def categoricalColumns_def
      numericCols_def numericColumns_def js_Set_of_def heatmap_v_def heatmap_match_def
      get_def or_zero_def)

text \<open>
  C4, amended. In the heatmap mapping, for every (x-category, y-category) pair the cell's
  value is read from the first row in table order whose first categorical column equals
  the x-category and (when a second categorical column exists) whose second categorical
  column equals the y-category: it is that row's value in the first numeric column,
  whatever y field is selected, with null, a missing value, 0 and the empty text read as
  0 (a text that is not empty is kept); it is 0 when no row matches. When two rows share the same category pair, the cell
  takes the value of the earlier row (first match, no aggregation).
\<close>

theorem heatmap_first_match:
  "((xi, yi, v) \<in> set (heatmap_cells p) \<longleftrightarrow>
      xi < length (xCats p) \<and> yi < length (yCats p)
      \<and> v = heatmap_v p (xCats p ! xi) (yCats p ! yi))
   \<and> (i < length (rows (table p)) \<and> heatmap_match p xc yc (rows (table p) ! i)
        \<and> (\<forall>j<i. \<not> heatmap_match p xc yc (rows (table p) ! j))
      \<longrightarrow> heatmap_v p xc yc = or_zero (get (rows (table p) ! i) (nth_opt (numericCols p) 0)))
   \<and> ((\<forall>r \<in> set (rows (table p)). \<not> heatmap_match p xc yc r) \<longrightarrow> heatmap_v p xc yc = Num (Finite 0))
   \<and> (heatmap_match p xc yc r \<longleftrightarrow>
        get r (nth_opt (catCols p) 0) = xc
        \<and> (nth_opt (catCols p) 1 = None \<or> nth_opt (catCols p) 1 = Some []
            \<or> get r (nth_opt (catCols p) 1) = yc))
   \<and> or_zero (Some (Num n)) = Num n
   \<and> or_zero None = Num (Finite 0) \<and> or_zero (Some Null) = Num (Finite 0)
   \<and> or_zero (Some (Str t)) = (if t = [] then Num (Finite 0) else Str t)
   \<and> heatmap_cells (p\<lparr>yField := f\<rparr>) = heatmap_cells p"
  using heatmap_v_first [of i p xc yc] heatmap_v_none [of p xc yc]
  by (simp add: heatmap_cells_set yField_heatmap_cells or_zero_def heatmap_match_def
      truthy_None_iff)

theorem heatmap_first_match_witness:
  "heatmap_v
     (props \<lparr>headers = [''c'', ''v''],
          rows = [[''c'' \<mapsto> Str ''x'', ''v'' \<mapsto> Num (Finite 5)], [''c'' \<mapsto> Str ''x'', ''v'' \<mapsto> Num (Finite 9)]]\<rparr> Heatmap)
     (Some (Str ''x'')) (Some (Str ''Value'')) = Num (Finite 5)"
  using heatmap_first_match
    [where p = "(props \<lparr>headers = [''c'', ''v''],
          rows = [[''c'' \<mapsto> Str ''x'', ''v'' \<mapsto> Num (Finite 5)], [''c'' \<mapsto> Str ''x'', ''v'' \<mapsto> Num (Finite 9)]]\<rparr> Heatmap)"
      and i = 0 and xc = "Some (Str ''x'')" and yc = "Some (Str ''Value'')"]
  by (simp add: heatmap_match_def catCols_def categoricalColumns_def numericCols_def
      numericColumns_def get_def or_zero_def)

section \<open>Properties of the funnel mapping\<close>















subsection \<open>The bar thickness\<close>












lemma barThickness_empty: "rounding H \<Longrightarrow> barThickness H [] i = Fin 24"
  by (simp add: barThickness_def js_Math_max_def js_or_num_def js_round_def rounding_def)

lemma parser_infinity:
  "toNumberIfPossible js_Number js_isNaN (RString ''Infinity'') = Num PInf"
  by (simp add: coerce_text_def trim_def is_ws_def strip_commas_def js_Number_def js_isNaN_def)



lemma funnel_example:
  "funnel_sorted
     (props \<lparr>headers = [''s'', ''v''],
          rows = [[''s'' \<mapsto> Str ''a'', ''v'' \<mapsto> Num (Finite 2)], [''s'' \<mapsto> Str ''b'', ''v'' \<mapsto> Num (Finite 8)],
                  [''s'' \<mapsto> Str ''c'', ''v'' \<mapsto> Num (Finite 6)], [''s'' \<mapsto> Str ''d'', ''v'' \<mapsto> Num (Finite 8)]]\<rparr> Funnel)
    = [(Str ''b'', Finite 8), (Str ''d'', Finite 8), (Str ''c'', Finite 6), (Str ''a'', Finite 2)]"
  by (simp add: funnel_sorted_def funnel_item_def js_sort_def by_value_desc_def jsnum_of_def
      x_field_def y_field_def js_or_def
      catCols_def categoricalColumns_def numericCols_def numericColumns_def get_def label_of_def)

lemma funnel_render_example:
  "ChartRenderer no_css
     (props \<lparr>headers = [''s'', ''v''],
          rows = [[''s'' \<mapsto> Str ''a'', ''v'' \<mapsto> Num (Finite 2)], [''s'' \<mapsto> Str ''b'', ''v'' \<mapsto> Num (Finite 8)],
                  [''s'' \<mapsto> Str ''c'', ''v'' \<mapsto> Num (Finite 6)], [''s'' \<mapsto> Str ''d'', ''v'' \<mapsto> Num (Finite 8)]]\<rparr> Funnel)
    = Inr (FunnelData [Str ''b'', Str ''d'', Str ''c'', Str ''a''] (Some ''v'')
             [Finite 8, Finite 8, Finite 6, Finite 2]
             [Lit ''#00e5ff'', Lit ''#00e5ff'', Lit ''#00e5ff'', Lit ''#00e5ff'']
             (barThickness no_css
                [(Str ''b'', Finite 8), (Str ''d'', Finite 8), (Str ''c'', Finite 6),
                 (Str ''a'', Finite 2)]))"
  by (simp add: ChartRenderer_def funnel_example label_colors_def colorFor_def per_value_def
      palette_of_def neonVars_def hslVar_def default_accent_def y_field_def js_or_def
      numericCols_def numericColumns_def)


end
